theory Spec2Isabelle
  imports Main "HOL-Library.Word"
begin

unbundle bit_operations_syntax

section \<open>The GBA cartridge of higan: data model\<close>

text \<open>
  The development embeds \<^verbatim>\<open>higan/gba/cartridge/cartridge.cpp\<close>. Machine integers
  are words: \<^verbatim>\<open>uint8\<close> is \<open>8 word\<close>, \<^verbatim>\<open>uint32\<close> and \<^verbatim>\<open>unsigned\<close> are \<open>32 word\<close>.
\<close>

type_synonym uint8 = "8 word"
type_synonym uint32 = "32 word"

text \<open>
  Modelled from the spec: the access-width enumeration \<^verbatim>\<open>Byte\<close>, \<^verbatim>\<open>Half\<close>, \<^verbatim>\<open>Word\<close>
  is declared in a header that is not part of the source at hand. The spec gives
  \<open>width \<in> {Byte, Half, Word}\<close>; the source compares its \<^verbatim>\<open>size\<close> argument against
  these three names only.
\<close>

datatype width = Byte | Half | Word

text \<open>
  A \<^verbatim>\<open>uint8*\<close> obtained from \<^verbatim>\<open>new uint8[n]\<close> is an array: its cells, addressed by the
  offset from the base pointer, and the number of cells that were allocated. The
  cells are a total function, as C++ pointer arithmetic does not check the offset;
  \<open>extent\<close> records where the allocation ends.
\<close>

type_synonym cells = "nat \<Rightarrow> uint8"

record array =
  cells :: cells
  extent :: nat

subsection \<open>The buffer accessors\<close>

text \<open>
  \<^verbatim>\<open>uint32 Cartridge::read(uint8 *data, uint32 addr, uint32 size)\<close>. The bytes are
  promoted and shifted in 32 bits; the result is their bit pattern. (The argument
  \<^verbatim>\<open>size\<close> is written \<open>sz\<close>.)
\<close>

definition Cartridge_read_data :: "cells \<Rightarrow> uint32 \<Rightarrow> width \<Rightarrow> uint32" where
  "Cartridge_read_data data addr sz =
     (let addr = (if sz = Word then addr AND NOT 3 else addr);
          addr = (if sz = Half then addr AND NOT 1 else addr);
          data = (\<lambda>i. data (unat addr + i))
      in if sz = Word then
           push_bit 0 (ucast (data 0)) OR push_bit 8 (ucast (data 1))
             OR push_bit 16 (ucast (data 2)) OR push_bit 24 (ucast (data 3))
         else if sz = Half then
           push_bit 0 (ucast (data 0)) OR push_bit 8 (ucast (data 1))
         else ucast (data 0))"

text \<open>
  \<^verbatim>\<open>void Cartridge::write(uint8 *data, uint32 addr, uint32 size, uint32 word)\<close>. The
  \<^verbatim>\<open>switch\<close> falls through from \<^verbatim>\<open>Word\<close> to \<^verbatim>\<open>Half\<close> to \<^verbatim>\<open>Byte\<close>; the stores happen
  in the order of the source, each truncating to \<^verbatim>\<open>uint8\<close>.
\<close>

definition Cartridge_write_data :: "cells \<Rightarrow> uint32 \<Rightarrow> width \<Rightarrow> uint32 \<Rightarrow> cells" where
  "Cartridge_write_data data addr sz word =
     (let addr = (if sz = Word then addr AND NOT 3 else addr);
          addr = (if sz = Half then addr AND NOT 1 else addr);
          base = unat addr;
          data = (if sz = Word
                  then data(base + 3 := ucast (drop_bit 24 word),
                            base + 2 := ucast (drop_bit 16 word))
                  else data);
          data = (if sz = Word \<or> sz = Half
                  then data(base + 1 := ucast (drop_bit 8 word))
                  else data)
      in data(base + 0 := ucast (drop_bit 0 word)))"

subsection \<open>The cartridge object\<close>

text \<open>
  The members that \<^verbatim>\<open>cartridge.cpp\<close> reads or writes. \<^verbatim>\<open>rom\<close> and \<^verbatim>\<open>ram\<close> are plain
  buffers with a size (and, for \<^verbatim>\<open>ram\<close>, a mask). The two protocol engines
  \<^verbatim>\<open>eeprom\<close> and \<^verbatim>\<open>flashrom\<close> are implemented in \<^verbatim>\<open>eeprom.cpp\<close> and \<^verbatim>\<open>flashrom.cpp\<close>,
  which are not part of the source at hand: their protocol registers are a type
  parameter (\<open>'x\<close>, \<open>'y\<close>), and the members this file touches are fields.
\<close>

datatype ID = ROM | RAM | EEPROM | FlashROM

record rom_t =
  rom_data :: array
  rom_size :: uint32

record ram_t =
  ram_data :: array
  ram_size :: uint32
  ram_mask :: uint32

record 'x eeprom_t =
  eeprom_data :: array
  eeprom_size :: uint32
  eeprom_bits :: uint32
  eeprom_mask :: uint32
  eeprom_test :: uint32
  eeprom_regs :: 'x

record 'y flashrom_t =
  flashrom_data :: array
  flashrom_size :: uint32
  flashrom_id :: uint32
  flashrom_regs :: 'y

record ('x, 'y) cartridge =
  loaded :: bool
  information_markup :: string
  information_title :: string
  memory :: "(ID \<times> string) list"
  has_sram :: bool
  has_eeprom :: bool
  has_flashrom :: bool
  rom :: rom_t
  ram :: ram_t
  eeprom :: "'x eeprom_t"
  flashrom :: "'y flashrom_t"
  sha256 :: string

subsection \<open>Collaborators outside this file\<close>

text \<open>
  The manifest arrives as a string and is parsed by \<^verbatim>\<open>Markup::Document\<close>; the model
  takes the parsed document. \<open>rom_node\<close> and \<open>ram_node\<close> are \<^verbatim>\<open>document["cartridge/rom"]\<close>
  and \<^verbatim>\<open>document["cartridge/ram"]\<close>, \<open>None\<close> when \<^verbatim>\<open>exists()\<close> is false. For a node
  \<^verbatim>\<open>info\<close>, \<open>node_name\<close> and \<open>node_type\<close> are \<^verbatim>\<open>info["name"].data\<close> and
  \<^verbatim>\<open>info["type"].data\<close>, \<open>node_size\<close> and \<open>node_id\<close> are \<^verbatim>\<open>numeral(info["size"].data)\<close>
  and \<^verbatim>\<open>numeral(info["id"].data)\<close> as stored into an \<^verbatim>\<open>unsigned\<close>.
\<close>

record node =
  node_name :: string
  node_type :: string
  node_size :: uint32
  node_id :: uint32

record document =
  manifest :: string
  title_text :: string
  rom_node :: "node option"
  ram_node :: "node option"

text \<open>
  Modelled from the spec: \<^verbatim>\<open>interface->loadRequest\<close> and \<^verbatim>\<open>nall::sha256\<close> are
  not part of the source at hand. After the spec (Load interface, Persistence
  interface) the frontend supplies the bytes of the image and of the save file: a
  request for an \<open>ID\<close> rewrites the cells of the buffer of that \<open>ID\<close> and nothing else.
  The hash is a function of the image cells and the image length.
\<close>

record host =
  loadRequest :: "ID \<Rightarrow> string \<Rightarrow> cells \<Rightarrow> cells"
  nall_sha256 :: "cells \<Rightarrow> uint32 \<Rightarrow> string"

text \<open>
  The operations of the two engines that the bus functions call:
  \<^verbatim>\<open>eeprom.read()\<close>, \<^verbatim>\<open>eeprom.write(word & 1)\<close>, \<^verbatim>\<open>flashrom.read(addr)\<close> and
  \<^verbatim>\<open>flashrom.write(addr, word)\<close>. They are parameters of the model. Each receives
  the engine object and the arguments as the call site passes them (32-bit values,
  before any conversion to the engine's own parameter types), and returns the
  engine object after the call; the reads also return the value, converted to
  \<^verbatim>\<open>uint32\<close>.
\<close>

record ('x, 'y) chips =
  EEPROM_read :: "'x eeprom_t \<Rightarrow> uint32 \<times> 'x eeprom_t"
  EEPROM_write :: "'x eeprom_t \<Rightarrow> uint32 \<Rightarrow> 'x eeprom_t"
  FlashROM_read :: "'y flashrom_t \<Rightarrow> uint32 \<Rightarrow> uint32 \<times> 'y flashrom_t"
  FlashROM_write :: "'y flashrom_t \<Rightarrow> uint32 \<Rightarrow> uint32 \<Rightarrow> 'y flashrom_t"

text \<open>
  Modelled from the spec: \<^verbatim>\<open>Bus::mirror\<close> is not part of the source at hand. After
  the spec, the image is "mirrored so that every address modulo \<open>logicalSize\<close>
  resolves to valid data", and \<open>read(a) = read(a mod logicalSize)\<close>. With size 0
  the address is returned as it is (\<open>a mod 0 = a\<close>).
\<close>

definition Bus_mirror :: "uint32 \<Rightarrow> uint32 \<Rightarrow> uint32" where
  "Bus_mirror addr sz = addr mod sz"

subsection \<open>Construction\<close>

text \<open>
  \<^verbatim>\<open>Cartridge::Cartridge()\<close>. The object is the namespace-scope \<^verbatim>\<open>cartridge\<close> (line 8),
  so its members are zero-initialised before the constructor runs: flags are false,
  numbers 0, strings and the vector empty. \<^verbatim>\<open>new uint8[n]\<close> does not initialise the
  cells: their contents are whatever the allocator hands out, given here by
  \<open>garbage\<close>. \<open>x0\<close> and \<open>y0\<close> are the initial protocol registers of the engines.
\<close>

definition Cartridge_new :: "(ID \<Rightarrow> cells) \<Rightarrow> 'x \<Rightarrow> 'y \<Rightarrow> ('x, 'y) cartridge" where
  "Cartridge_new garbage x0 y0 =
     \<lparr> loaded = False,
       information_markup = [],
       information_title = [],
       memory = [],
       has_sram = False,
       has_eeprom = False,
       has_flashrom = False,
       rom = \<lparr> rom_data = \<lparr> cells = garbage ROM, extent = 32 * 1024 * 1024 \<rparr>,
               rom_size = 32 * 1024 * 1024 \<rparr>,
       ram = \<lparr> ram_data = \<lparr> cells = garbage RAM, extent = 32 * 1024 \<rparr>,
               ram_size = 32 * 1024, ram_mask = 0 \<rparr>,
       eeprom = \<lparr> eeprom_data = \<lparr> cells = garbage EEPROM, extent = 8 * 1024 \<rparr>,
                  eeprom_size = 8 * 1024, eeprom_bits = 0, eeprom_mask = 0,
                  eeprom_test = 0, eeprom_regs = x0 \<rparr>,
       flashrom = \<lparr> flashrom_data = \<lparr> cells = garbage FlashROM, extent = 128 * 1024 \<rparr>,
                    flashrom_size = 128 * 1024, flashrom_id = 0, flashrom_regs = y0 \<rparr>,
       sha256 = [] \<rparr>"

subsection \<open>Loading\<close>

text \<open>
  The loops of \<^verbatim>\<open>load\<close> count in \<^verbatim>\<open>unsigned\<close>. The counter stays below the bound
  inside the body, so the increment never wraps and the loops terminate.
\<close>

text \<open>
  \<^verbatim>\<open>for(unsigned n = 0; n < size; n++) data[n] = 0xff;\<close> from counter \<open>n\<close> on. The
  store \<^verbatim>\<open>data[n]\<close> is unchecked pointer arithmetic: here it is an update of the
  cells at \<open>n\<close>, whatever the extent of the array. This is what the loop does while
  \<open>n\<close> is below the extent; load compares the bound with no extent, and what a store
  past the extent does to the rest of the program is outside this model. The
  theorems on the contents of a buffer after load therefore take the bound to be at
  most the extent.
\<close>

function fill_loop :: "uint32 \<Rightarrow> uint32 \<Rightarrow> cells \<Rightarrow> cells" where
  "fill_loop n lim data =
     (if n < lim then fill_loop (n + 1) lim (data(unat n := 0xff)) else data)"
  by pat_completeness auto
termination
proof (relation "measure (\<lambda>(n, lim, data). unat lim - unat n)")
  fix n lim :: uint32 and data :: cells
  assume "n < lim"
  then have below: "unat n < unat lim" by (simp add: word_less_nat_alt)
  moreover have "unat lim < 2 ^ 32" using unsigned_less [of lim] by simp
  ultimately have "unat (n + 1) = Suc (unat n)" by (simp add: unat_word_ariths)
  with below show "((n + 1, lim, data(unat n := 0xff)), (n, lim, data))
                     \<in> measure (\<lambda>(n, lim, data). unat lim - unat n)"
    by simp
qed simp

text \<open>
  \<^verbatim>\<open>for(unsigned addr = rom_size; addr < rom.size; addr++)
    rom.data[addr] = rom.data[Bus::mirror(addr, rom_size)];\<close> from counter \<open>addr\<close> on;
  \<open>lim\<close> is \<^verbatim>\<open>rom.size\<close>.
\<close>

function mirror_loop :: "uint32 \<Rightarrow> uint32 \<Rightarrow> uint32 \<Rightarrow> cells \<Rightarrow> cells" where
  "mirror_loop addr romsize lim data =
     (if addr < lim
      then mirror_loop (addr + 1) romsize lim
             (data(unat addr := data (unat (Bus_mirror addr romsize))))
      else data)"
  by pat_completeness auto
termination
proof (relation "measure (\<lambda>(addr, romsize, lim, data). unat lim - unat addr)")
  fix addr romsize lim :: uint32 and data :: cells
  assume "addr < lim"
  then have below: "unat addr < unat lim" by (simp add: word_less_nat_alt)
  moreover have "unat lim < 2 ^ 32" using unsigned_less [of lim] by simp
  ultimately have "unat (addr + 1) = Suc (unat addr)" by (simp add: unat_word_ariths)
  with below show "((addr + 1, romsize, lim,
                      data(unat addr := data (unat (Bus_mirror addr romsize)))),
                     (addr, romsize, lim, data))
                     \<in> measure (\<lambda>(addr, romsize, lim, data). unat lim - unat addr)"
    by simp
qed simp

declare fill_loop.simps [simp del] mirror_loop.simps [simp del]

text \<open>
  The block \<^verbatim>\<open>if(document["cartridge/rom"].exists())\<close>; the result carries the local
  \<^verbatim>\<open>rom_size\<close>, which stays 0 without the node.
\<close>

definition load_rom ::
  "host \<Rightarrow> node option \<Rightarrow> ('x, 'y) cartridge \<Rightarrow> uint32 \<times> ('x, 'y) cartridge" where
  "load_rom h r c =
     (case r of
        None \<Rightarrow> (0, c)
      | Some info \<Rightarrow>
          (let data = loadRequest h ROM (node_name info) (cells (rom_data (rom c)));
               romsize = node_size info;
               data = mirror_loop romsize romsize (rom_size (rom c)) data
           in (romsize, c\<lparr>rom := (rom c)\<lparr>rom_data := (rom_data (rom c))\<lparr>cells := data\<rparr>\<rparr>\<rparr>)))"

text \<open>The block for \<^verbatim>\<open>"SRAM"\<close> and \<^verbatim>\<open>"FRAM"\<close>.\<close>

definition load_sram :: "host \<Rightarrow> node \<Rightarrow> ('x, 'y) cartridge \<Rightarrow> ('x, 'y) cartridge" where
  "load_sram h info c =
     (if node_type info = ''SRAM'' \<or> node_type info = ''FRAM'' then
        (let sz = node_size info;
             data = fill_loop 0 sz (cells (ram_data (ram c)));
             data = loadRequest h RAM (node_name info) data
         in c\<lparr> has_sram := True,
               ram := \<lparr> ram_data = (ram_data (ram c))\<lparr>cells := data\<rparr>,
                        ram_size = sz, ram_mask = sz - 1 \<rparr>,
               memory := memory c @ [(RAM, node_name info)] \<rparr>)
      else c)"

text \<open>The block for \<^verbatim>\<open>"EEPROM"\<close>; \<open>romsize\<close> is the local \<^verbatim>\<open>rom_size\<close>.\<close>

definition load_eeprom ::
  "host \<Rightarrow> uint32 \<Rightarrow> node \<Rightarrow> ('x, 'y) cartridge \<Rightarrow> ('x, 'y) cartridge" where
  "load_eeprom h romsize info c =
     (if node_type info = ''EEPROM'' then
        (let sz = node_size info;
             bits = (if sz \<le> 512 then 6 else 14);
             (sz, bits) = (if sz = 0 then (8192, 0) else (sz, bits));
             mask = (if romsize > 16 * 1024 * 1024 then 0x0fffff00 else 0x0f000000);
             test = (if romsize > 16 * 1024 * 1024 then 0x0dffff00 else 0x0d000000);
             data = fill_loop 0 sz (cells (eeprom_data (eeprom c)));
             data = loadRequest h EEPROM (node_name info) data
         in c\<lparr> has_eeprom := True,
               eeprom := (eeprom c)\<lparr> eeprom_data := (eeprom_data (eeprom c))\<lparr>cells := data\<rparr>,
                                     eeprom_size := sz, eeprom_bits := bits,
                                     eeprom_mask := mask, eeprom_test := test \<rparr>,
               memory := memory c @ [(EEPROM, node_name info)] \<rparr>)
      else c)"

text \<open>The block for \<^verbatim>\<open>"FlashROM"\<close>.\<close>

definition load_flashrom :: "host \<Rightarrow> node \<Rightarrow> ('x, 'y) cartridge \<Rightarrow> ('x, 'y) cartridge" where
  "load_flashrom h info c =
     (if node_type info = ''FlashROM'' then
        (let sz = node_size info;
             data = fill_loop 0 sz (cells (flashrom_data (flashrom c)));
             data = loadRequest h FlashROM (node_name info) data
         in c\<lparr> has_flashrom := True,
               flashrom := (flashrom c)\<lparr> flashrom_data := (flashrom_data (flashrom c))\<lparr>cells := data\<rparr>,
                                         flashrom_id := node_id info,
                                         flashrom_size := sz \<rparr>,
               memory := memory c @ [(FlashROM, node_name info)] \<rparr>)
      else c)"

text \<open>
  \<^verbatim>\<open>void Cartridge::load(const string &manifest)\<close>. \<^verbatim>\<open>system.load()\<close> belongs to
  another component and touches no member of the cartridge.
\<close>

definition Cartridge_load ::
  "host \<Rightarrow> document \<Rightarrow> ('x, 'y) cartridge \<Rightarrow> ('x, 'y) cartridge" where
  "Cartridge_load h doc c =
     (let c = c\<lparr> information_markup := manifest doc, information_title := title_text doc \<rparr>;
          (romsize, c) = load_rom h (rom_node doc) c;
          c = c\<lparr> has_sram := False, has_eeprom := False, has_flashrom := False \<rparr>;
          c = (case ram_node doc of
                 None \<Rightarrow> c
               | Some info \<Rightarrow>
                   load_flashrom h info (load_eeprom h romsize info (load_sram h info c)))
      in c\<lparr> sha256 := nall_sha256 h (cells (rom_data (rom c))) romsize, loaded := True \<rparr>)"

text \<open>\<^verbatim>\<open>string Cartridge::title()\<close>.\<close>

definition Cartridge_title :: "('x, 'y) cartridge \<Rightarrow> string" where
  "Cartridge_title c = information_title c"

text \<open>\<^verbatim>\<open>void Cartridge::unload()\<close>; \<^verbatim>\<open>memory.reset()\<close> empties the vector.\<close>

definition Cartridge_unload :: "('x, 'y) cartridge \<Rightarrow> ('x, 'y) cartridge" where
  "Cartridge_unload c = (if loaded c = False then c else c\<lparr> loaded := False, memory := [] \<rparr>)"

subsection \<open>The storage exposed to the frontend\<close>

text \<open>
  \<^verbatim>\<open>uint8* Cartridge::ram_data()\<close>: a pointer is \<open>None\<close> for \<^verbatim>\<open>nullptr\<close>, or the array
  it points to.
\<close>

definition Cartridge_ram_data :: "('x, 'y) cartridge \<Rightarrow> array option" where
  "Cartridge_ram_data c =
     (if has_sram c then Some (ram_data (ram c))
      else if has_eeprom c then Some (eeprom_data (eeprom c))
      else if has_flashrom c then Some (flashrom_data (flashrom c))
      else None)"

text \<open>\<^verbatim>\<open>unsigned Cartridge::ram_size()\<close>.\<close>

definition Cartridge_ram_size :: "('x, 'y) cartridge \<Rightarrow> uint32" where
  "Cartridge_ram_size c =
     (if has_sram c then ram_size (ram c)
      else if has_eeprom c then eeprom_size (eeprom c)
      else if has_flashrom c then flashrom_size (flashrom c)
      else 0)"

subsection \<open>The bus\<close>

text \<open>
  \<^verbatim>\<open>uint32 Cartridge::read(uint32 addr, uint32 size)\<close>, lines 132 to 136. \<open>fetch\<close> is
  \<^verbatim>\<open>cpu.pipeline.fetch.instruction\<close>, a value of the processor. A read returns the
  value and the cartridge, since the engines have state.
\<close>

definition Cartridge_read ::
  "('x, 'y) chips \<Rightarrow> uint32 \<Rightarrow> ('x, 'y) cartridge \<Rightarrow> uint32 \<Rightarrow> width
     \<Rightarrow> uint32 \<times> ('x, 'y) cartridge" where
  "Cartridge_read E fetch c addr sz =
     (if has_sram c \<and> addr AND 0x0e000000 = 0x0e000000
      then (Cartridge_read_data (cells (ram_data (ram c))) (addr AND ram_mask (ram c)) sz, c)
      else if has_eeprom c \<and> addr AND eeprom_mask (eeprom c) = eeprom_test (eeprom c)
      then (let (v, e) = EEPROM_read E (eeprom c) in (v, c\<lparr>eeprom := e\<rparr>))
      else if has_flashrom c \<and> addr AND 0x0e000000 = 0x0e000000
      then (let (v, f) = FlashROM_read E (flashrom c) addr in (v, c\<lparr>flashrom := f\<rparr>))
      else if addr < 0x0e000000
      then (Cartridge_read_data (cells (rom_data (rom c))) (addr AND 0x01ffffff) sz, c)
      else (fetch, c))"

text \<open>
  \<^verbatim>\<open>void Cartridge::write(uint32 addr, uint32 size, uint32 word)\<close>, lines 155 to 157.
\<close>

definition Cartridge_write ::
  "('x, 'y) chips \<Rightarrow> ('x, 'y) cartridge \<Rightarrow> uint32 \<Rightarrow> width \<Rightarrow> uint32
     \<Rightarrow> ('x, 'y) cartridge" where
  "Cartridge_write E c addr sz word =
     (if has_sram c \<and> addr AND 0x0e000000 = 0x0e000000
      then c\<lparr>ram := (ram c)\<lparr>ram_data := (ram_data (ram c))
             \<lparr>cells := Cartridge_write_data (cells (ram_data (ram c)))
                         (addr AND ram_mask (ram c)) sz word\<rparr>\<rparr>\<rparr>
      else if has_eeprom c \<and> addr AND eeprom_mask (eeprom c) = eeprom_test (eeprom c)
      then c\<lparr>eeprom := EEPROM_write E (eeprom c) (word AND 1)\<rparr>
      else if has_flashrom c \<and> addr AND 0x0e000000 = 0x0e000000
      then c\<lparr>flashrom := FlashROM_write E (flashrom c) addr word\<rparr>
      else c)"

text \<open>
  The \<^verbatim>\<open>RAM_ANALYZE\<close> blocks at the head of both bus functions (lines 125 to 130 and
  140 to 153) print a message the first time a condition on the address holds. They
  read and write their own function-local \<^verbatim>\<open>static bool once\<close> and the console
  and no member of the cartridge, and the bus functions proper read none of these:
  the two parts are independent, and are embedded apart.
\<close>

record analyze =
  read_once :: bool
  write_once_sram :: bool
  write_once_eeprom :: bool
  write_once_flashrom :: bool
  console :: "string list"

text \<open>Every \<^verbatim>\<open>once\<close> starts as \<^verbatim>\<open>true\<close>, and nothing has been printed.\<close>

definition RAM_ANALYZE_initial :: analyze where
  "RAM_ANALYZE_initial =
     \<lparr> read_once = True, write_once_sram = True, write_once_eeprom = True,
       write_once_flashrom = True, console = [] \<rparr>"

text \<open>\<^verbatim>\<open>if(once) once = false, print(text);\<close>\<close>

definition print_once :: "bool \<Rightarrow> string \<Rightarrow> string list \<Rightarrow> bool \<times> string list" where
  "print_once once text out = (if once then (False, out @ [text]) else (once, out))"

definition RAM_ANALYZE_read :: "analyze \<Rightarrow> uint32 \<Rightarrow> analyze" where
  "RAM_ANALYZE_read a addr =
     (if addr AND 0x0e000000 = 0x0e000000
      then (let (once, out) = print_once (read_once a) (''* SRAM/FlashROM read detected'' @ [CHR 0x0A]) (console a)
            in a\<lparr>read_once := once, console := out\<rparr>)
      else a)"

definition RAM_ANALYZE_write :: "analyze \<Rightarrow> uint32 \<Rightarrow> uint32 \<Rightarrow> analyze" where
  "RAM_ANALYZE_write a addr word =
     (let a = (if addr AND 0x0e000000 = 0x0e000000
               then (let (once, out) =
                           print_once (write_once_sram a) (''* SRAM/FlashROM write detected'' @ [CHR 0x0A]) (console a)
                     in a\<lparr>write_once_sram := once, console := out\<rparr>)
               else a);
          a = (if addr AND 0x0f000000 = 0x0d000000
               then (let (once, out) =
                           print_once (write_once_eeprom a) (''* EEPROM write detected'' @ [CHR 0x0A]) (console a)
                     in a\<lparr>write_once_eeprom := once, console := out\<rparr>)
               else a)
      in if addr AND 0x0e00ffff = 0x0e005555 \<and> word AND 0xff = 0xaa
         then (let (once, out) =
                     print_once (write_once_flashrom a) (''* FlashROM write detected'' @ [CHR 0x0A]) (console a)
               in a\<lparr>write_once_flashrom := once, console := out\<rparr>)
         else a)"

subsection \<open>Example configurations\<close>

text \<open>
  Concrete inputs on which the theorems below are run. \<open>no_files\<close> is a frontend
  that has no file for any request and leaves every buffer as it is; \<open>zero_heap\<close>
  is an allocator whose fresh arrays hold zeros.
\<close>

definition no_files :: host where
  "no_files = \<lparr> loadRequest = (\<lambda>b name data. data), nall_sha256 = (\<lambda>data n. []) \<rparr>"

definition zero_heap :: "ID \<Rightarrow> cells" where
  "zero_heap b = (\<lambda>i. 0)"

text \<open>
  Modelled from the spec: the two engines at rest, with no protocol registers. After
  the spec, an EEPROM read "returns 1 while idle", and a FlashROM read outside any
  special mode returns "the raw buffer byte at the (bank-relative) address", here
  in bank 0 of 64 KiB. The writes leave the engine as it is: the examples issue no
  command sequence.
\<close>

definition idle_chips :: "(unit, unit) chips" where
  "idle_chips =
     \<lparr> EEPROM_read = (\<lambda>e. (1, e)),
       EEPROM_write = (\<lambda>e bit. e),
       FlashROM_read = (\<lambda>f addr. (ucast (cells (flashrom_data f) (unat (addr AND 0xffff))), f)),
       FlashROM_write = (\<lambda>f addr word. f) \<rparr>"

definition fresh :: "(unit, unit) cartridge" where
  "fresh = Cartridge_new zero_heap () ()"

text \<open>Manifests: an image of 8 MiB with 32 KiB of battery RAM, and so on.\<close>

definition rom_8M :: node where
  "rom_8M = \<lparr> node_name = ''program.rom'', node_type = [], node_size = 8 * 1024 * 1024, node_id = 0 \<rparr>"

definition sram_32K :: document where
  "sram_32K =
     \<lparr> manifest = [], title_text = [], rom_node = Some rom_8M,
       ram_node = Some \<lparr> node_name = ''save.ram'', node_type = ''SRAM'',
                         node_size = 32 * 1024, node_id = 0 \<rparr> \<rparr>"

definition sram_64K :: document where
  "sram_64K =
     \<lparr> manifest = [], title_text = [], rom_node = Some rom_8M,
       ram_node = Some \<lparr> node_name = ''save.ram'', node_type = ''SRAM'',
                         node_size = 64 * 1024, node_id = 0 \<rparr> \<rparr>"

definition eeprom_512 :: document where
  "eeprom_512 =
     \<lparr> manifest = [], title_text = [], rom_node = Some rom_8M,
       ram_node = Some \<lparr> node_name = ''save.ram'', node_type = ''EEPROM'',
                         node_size = 512, node_id = 0 \<rparr> \<rparr>"

definition flashrom_64K :: document where
  "flashrom_64K =
     \<lparr> manifest = [], title_text = [], rom_node = Some rom_8M,
       ram_node = Some \<lparr> node_name = ''save.ram'', node_type = ''FlashROM'',
                         node_size = 64 * 1024, node_id = 0x1cc2 \<rparr> \<rparr>"

section \<open>The routing of the spec\<close>

text \<open>
  The destinations of the spec's AddressRouter, with the index or address each one
  receives, and its classification of an address by priority, first match first.
  These follow the words of the spec; the theorems below compare the bus functions
  of the source with them.
\<close>

datatype destination = BatteryRam uint32 | Eeprom | FlashRom uint32 | Image uint32 | OpenBus

definition classify :: "('x, 'y) cartridge \<Rightarrow> uint32 \<Rightarrow> destination" where
  "classify c address =
     (if has_sram c \<and> address AND 0x0E000000 = 0x0E000000
      then BatteryRam (address AND ram_mask (ram c))
      else if has_eeprom c \<and> address AND eeprom_mask (eeprom c) = eeprom_test (eeprom c)
      then Eeprom
      else if has_flashrom c \<and> address AND 0x0E000000 = 0x0E000000
      then FlashRom address
      else if address < 0x0E000000
      then Image (address AND 0x01FFFFFF)
      else OpenBus)"

text \<open>What a read does at a destination, after the spec.\<close>

definition read_from ::
  "('x, 'y) chips \<Rightarrow> uint32 \<Rightarrow> ('x, 'y) cartridge \<Rightarrow> destination \<Rightarrow> width
     \<Rightarrow> uint32 \<times> ('x, 'y) cartridge" where
  "read_from E fetch c d sz =
     (case d of
        BatteryRam i \<Rightarrow> (Cartridge_read_data (cells (ram_data (ram c))) i sz, c)
      | Eeprom \<Rightarrow> (fst (EEPROM_read E (eeprom c)), c\<lparr>eeprom := snd (EEPROM_read E (eeprom c))\<rparr>)
      | FlashRom a \<Rightarrow>
          (fst (FlashROM_read E (flashrom c) a), c\<lparr>flashrom := snd (FlashROM_read E (flashrom c) a)\<rparr>)
      | Image i \<Rightarrow> (Cartridge_read_data (cells (rom_data (rom c))) i sz, c)
      | OpenBus \<Rightarrow> (fetch, c))"

text \<open>Replacing the cells of the battery RAM, or of the image.\<close>

definition store_ram :: "('x, 'y) cartridge \<Rightarrow> cells \<Rightarrow> ('x, 'y) cartridge" where
  "store_ram c data = c\<lparr>ram := (ram c)\<lparr>ram_data := (ram_data (ram c))\<lparr>cells := data\<rparr>\<rparr>\<rparr>"

definition store_rom :: "('x, 'y) cartridge \<Rightarrow> cells \<Rightarrow> ('x, 'y) cartridge" where
  "store_rom c data = c\<lparr>rom := (rom c)\<lparr>rom_data := (rom_data (rom c))\<lparr>cells := data\<rparr>\<rparr>\<rparr>"

text \<open>
  What a write does at a destination: the three storage chips take it, the image and
  the open bus ignore it.
\<close>

definition write_to ::
  "('x, 'y) chips \<Rightarrow> ('x, 'y) cartridge \<Rightarrow> destination \<Rightarrow> width \<Rightarrow> uint32
     \<Rightarrow> ('x, 'y) cartridge" where
  "write_to E c d sz word =
     (case d of
        BatteryRam i \<Rightarrow> store_ram c (Cartridge_write_data (cells (ram_data (ram c))) i sz word)
      | Eeprom \<Rightarrow> c\<lparr>eeprom := EEPROM_write E (eeprom c) (word AND 1)\<rparr>
      | FlashRom a \<Rightarrow> c\<lparr>flashrom := FlashROM_write E (flashrom c) a word\<rparr>
      | Image i \<Rightarrow> c
      | OpenBus \<Rightarrow> c)"

text \<open>
  The reading of claim C1 in which a write that is classified to the image is
  dispatched to the image buffer at the index.
\<close>

definition write_to_as_claimed ::
  "('x, 'y) chips \<Rightarrow> ('x, 'y) cartridge \<Rightarrow> destination \<Rightarrow> width \<Rightarrow> uint32
     \<Rightarrow> ('x, 'y) cartridge" where
  "write_to_as_claimed E c d sz word =
     (case d of
        Image i \<Rightarrow> store_rom c (Cartridge_write_data (cells (rom_data (rom c))) i sz word)
      | _ \<Rightarrow> write_to E c d sz word)"

text \<open>
  The realigned address of the spec: a Half access clears bit 0, a Word access clears
  bits 0 and 1. \<open>span\<close> is the number of cells an access of a width touches.
\<close>

definition align :: "uint32 \<Rightarrow> width \<Rightarrow> uint32" where
  "align addr sz = (case sz of Word \<Rightarrow> addr AND NOT 3 | Half \<Rightarrow> addr AND NOT 1 | Byte \<Rightarrow> addr)"

definition span :: "width \<Rightarrow> nat" where
  "span sz = (case sz of Word \<Rightarrow> 4 | Half \<Rightarrow> 2 | Byte \<Rightarrow> 1)"

text \<open>
  The little-endian layout of a value in cells: \<open>byte_of w j\<close> is bits \<open>8j\<close> to
  \<open>8j + 7\<close> of \<open>w\<close>, and \<open>store_bytes d base n w\<close> is \<open>d\<close> with the \<open>n\<close> cells from
  \<open>base\<close> on replaced by the low \<open>n\<close> bytes of \<open>w\<close>, lowest byte first.
\<close>

definition byte_of :: "uint32 \<Rightarrow> nat \<Rightarrow> uint8" where
  "byte_of w j = ucast (drop_bit (8 * j) w)"

definition store_bytes :: "cells \<Rightarrow> nat \<Rightarrow> nat \<Rightarrow> uint32 \<Rightarrow> cells" where
  "store_bytes d base n w = (\<lambda>m. if base \<le> m \<and> m < base + n then byte_of w (m - base) else d m)"

text \<open>The example cartridges: \<open>fresh\<close> after load of the example manifests.\<close>

definition cart_sram_32K :: "(unit, unit) cartridge" where
  "cart_sram_32K = Cartridge_load no_files sram_32K fresh"

definition cart_sram_64K :: "(unit, unit) cartridge" where
  "cart_sram_64K = Cartridge_load no_files sram_64K fresh"

text \<open>
  A frontend with save files of 64 KiB that hold the bytes 0, 1, 2 and so on: the
  image is left as it is, the first 65536 cells of a storage buffer become the bytes
  of the save file.
\<close>

definition save_files :: host where
  "save_files =
     \<lparr> loadRequest = (\<lambda>b name data. if b = ROM then data
                        else (\<lambda>i. if i < 65536 then of_nat i else data i)),
       nall_sha256 = (\<lambda>data n. []) \<rparr>"

definition cart_flashrom_64K :: "(unit, unit) cartridge" where
  "cart_flashrom_64K = Cartridge_load save_files flashrom_64K fresh"

section \<open>The loops of load in closed form\<close>

lemma unat_increment: "(n :: uint32) < lim \<Longrightarrow> unat (n + 1) = Suc (unat n)"
proof -
  assume "n < lim"
  then have "unat n < unat lim" by (simp add: word_less_nat_alt)
  moreover have "unat lim < 2 ^ 32" using unsigned_less [of lim] by simp
  ultimately have "unat n + 1 < 2 ^ 32" by simp
  then show ?thesis by (simp add: unat_word_ariths)
qed

lemma fill_loop_cells:
  "n \<le> lim \<Longrightarrow> fill_loop n lim data = (\<lambda>i. if unat n \<le> i \<and> i < unat lim then 0xff else data i)"
proof (induction n lim data rule: fill_loop.induct)
  case (1 n lim data)
  show ?case
  proof (cases "n < lim")
    case True
    then have le: "n + 1 \<le> lim" by (simp add: inc_le)
    have s: "unat (n + 1) = Suc (unat n)" using True by (rule unat_increment)
    have "fill_loop n lim data = fill_loop (n + 1) lim (data(unat n := 0xff))"
      using True by (subst fill_loop.simps) simp
    also have "\<dots> = (\<lambda>i. if unat (n + 1) \<le> i \<and> i < unat lim then 0xff else (data(unat n := 0xff)) i)"
      using "1.IH" [OF True le] .
    also have "\<dots> = (\<lambda>i. if unat n \<le> i \<and> i < unat lim then 0xff else data i)"
      using True by (auto simp: s fun_eq_iff word_less_nat_alt)
    finally show ?thesis .
  next
    case False
    with "1.prems" have "n = lim" by simp
    then show ?thesis by (subst fill_loop.simps) (auto simp: fun_eq_iff)
  qed
qed

lemma mirror_loop_cells:
  "romsize \<le> addr \<Longrightarrow> addr \<le> lim \<Longrightarrow>
   mirror_loop addr romsize lim data =
     (\<lambda>i. if unat addr \<le> i \<and> i < unat lim then data (i mod unat romsize) else data i)"
proof (induction addr romsize lim data rule: mirror_loop.induct)
  case (1 addr romsize lim data)
  show ?case
  proof (cases "addr < lim")
    case True
    then have le: "addr + 1 \<le> lim" by (simp add: inc_le)
    have s: "unat (addr + 1) = Suc (unat addr)" using True by (rule unat_increment)
    have ge: "romsize \<le> addr + 1"
      using "1.prems"(1) s by (simp add: word_le_nat_alt)
    let ?d = "data(unat addr := data (unat (Bus_mirror addr romsize)))"
    have src: "?d (i mod unat romsize) = data (i mod unat romsize)" if "unat addr < i" for i
    proof (cases "unat romsize = 0")
      case True
      with that show ?thesis by simp
    next
      case False
      then have "i mod unat romsize < unat romsize" by simp
      also have "\<dots> \<le> unat addr" using "1.prems"(1) by (simp add: word_le_nat_alt)
      finally show ?thesis by simp
    qed
    have "mirror_loop addr romsize lim data = mirror_loop (addr + 1) romsize lim ?d"
      using True by (subst mirror_loop.simps) simp
    also have "\<dots> = (\<lambda>i. if unat (addr + 1) \<le> i \<and> i < unat lim then ?d (i mod unat romsize) else ?d i)"
      using "1.IH" [OF True ge le] .
    also have "\<dots> = (\<lambda>i. if unat addr \<le> i \<and> i < unat lim then data (i mod unat romsize) else data i)"
    proof (rule ext)
      fix i
      consider "i < unat addr" | "i = unat addr" | "unat addr < i" by linarith
      then show "(if unat (addr + 1) \<le> i \<and> i < unat lim then ?d (i mod unat romsize) else ?d i) =
         (if unat addr \<le> i \<and> i < unat lim then data (i mod unat romsize) else data i)"
      proof cases
        case 1 then show ?thesis by (simp add: s)
      next
        case 2 then show ?thesis using True
          by (simp add: s Bus_mirror_def unat_mod word_less_nat_alt)
      next
        case 3 then show ?thesis using src [OF 3] by (simp add: s)
      qed
    qed
    finally show ?thesis .
  next
    case False
    with "1.prems" have "addr = lim" by simp
    then show ?thesis by (subst mirror_loop.simps) (auto simp: fun_eq_iff)
  qed
qed

section \<open>The fields after load\<close>

lemmas load_defs =
  Cartridge_load_def load_rom_def load_sram_def load_eeprom_def load_flashrom_def

lemma load_rom_fst:
  "fst (load_rom h r c) = (case r of None \<Rightarrow> 0 | Some info \<Rightarrow> node_size info)"
  by (simp add: load_rom_def Let_def split: option.splits)

lemma load_rom_snd:
  "ram (snd (load_rom h r c)) = ram c"
  "eeprom (snd (load_rom h r c)) = eeprom c"
  "flashrom (snd (load_rom h r c)) = flashrom c"
  "memory (snd (load_rom h r c)) = memory c"
  "rom (snd (load_rom h r c)) =
     (case r of None \<Rightarrow> rom c
      | Some info \<Rightarrow>
          (rom c)\<lparr>rom_data := (rom_data (rom c))
            \<lparr>cells := mirror_loop (node_size info) (node_size info) (rom_size (rom c))
                        (loadRequest h ROM (node_name info) (cells (rom_data (rom c))))\<rparr>\<rparr>)"
  by (simp_all add: load_rom_def Let_def split: option.splits)

lemma load_sram_fields:
  "rom (load_sram h info c) = rom c"
  "eeprom (load_sram h info c) = eeprom c"
  "flashrom (load_sram h info c) = flashrom c"
  "has_sram (load_sram h info c) =
     (node_type info = ''SRAM'' \<or> node_type info = ''FRAM'' \<or> has_sram c)"
  "has_eeprom (load_sram h info c) = has_eeprom c"
  "has_flashrom (load_sram h info c) = has_flashrom c"
  "ram (load_sram h info c) =
     (if node_type info = ''SRAM'' \<or> node_type info = ''FRAM''
      then \<lparr> ram_data = (ram_data (ram c))
                \<lparr>cells := loadRequest h RAM (node_name info)
                            (fill_loop 0 (node_size info) (cells (ram_data (ram c))))\<rparr>,
              ram_size = node_size info, ram_mask = node_size info - 1 \<rparr>
      else ram c)"
  by (simp_all add: load_sram_def Let_def)

lemma load_eeprom_fields:
  "rom (load_eeprom h romsize info c) = rom c"
  "ram (load_eeprom h romsize info c) = ram c"
  "flashrom (load_eeprom h romsize info c) = flashrom c"
  "has_sram (load_eeprom h romsize info c) = has_sram c"
  "has_eeprom (load_eeprom h romsize info c) = (node_type info = ''EEPROM'' \<or> has_eeprom c)"
  "has_flashrom (load_eeprom h romsize info c) = has_flashrom c"
  "eeprom (load_eeprom h romsize info c) =
     (if node_type info = ''EEPROM''
      then (eeprom c)
             \<lparr> eeprom_data := (eeprom_data (eeprom c))
                \<lparr>cells := loadRequest h EEPROM (node_name info)
                            (fill_loop 0 (if node_size info = 0 then 8192 else node_size info)
                               (cells (eeprom_data (eeprom c))))\<rparr>,
               eeprom_size := (if node_size info = 0 then 8192 else node_size info),
               eeprom_bits := (if node_size info = 0 then 0
                               else if node_size info \<le> 512 then 6 else 14),
               eeprom_mask := (if 16 * 1024 * 1024 < romsize then 0x0fffff00 else 0x0f000000),
               eeprom_test := (if 16 * 1024 * 1024 < romsize then 0x0dffff00 else 0x0d000000) \<rparr>
      else eeprom c)"
  by (simp_all add: load_eeprom_def Let_def)

lemma load_flashrom_fields:
  "rom (load_flashrom h info c) = rom c"
  "ram (load_flashrom h info c) = ram c"
  "eeprom (load_flashrom h info c) = eeprom c"
  "has_sram (load_flashrom h info c) = has_sram c"
  "has_eeprom (load_flashrom h info c) = has_eeprom c"
  "has_flashrom (load_flashrom h info c) = (node_type info = ''FlashROM'' \<or> has_flashrom c)"
  "flashrom (load_flashrom h info c) =
     (if node_type info = ''FlashROM''
      then (flashrom c)
             \<lparr> flashrom_data := (flashrom_data (flashrom c))
                \<lparr>cells := loadRequest h FlashROM (node_name info)
                            (fill_loop 0 (node_size info) (cells (flashrom_data (flashrom c))))\<rparr>,
               flashrom_id := node_id info,
               flashrom_size := node_size info \<rparr>
      else flashrom c)"
  by (simp_all add: load_flashrom_def Let_def)

lemmas load_fields = load_rom_snd load_sram_fields load_eeprom_fields load_flashrom_fields

lemma load_has_sram:
  "has_sram (Cartridge_load h doc c) =
     (case ram_node doc of None \<Rightarrow> False
      | Some info \<Rightarrow> node_type info = ''SRAM'' \<or> node_type info = ''FRAM'')"
  by (simp add: Cartridge_load_def load_fields Let_def split_beta split: option.splits)

lemma load_has_eeprom:
  "has_eeprom (Cartridge_load h doc c) =
     (case ram_node doc of None \<Rightarrow> False | Some info \<Rightarrow> node_type info = ''EEPROM'')"
  by (simp add: Cartridge_load_def load_fields Let_def split_beta split: option.splits)

lemma load_has_flashrom:
  "has_flashrom (Cartridge_load h doc c) =
     (case ram_node doc of None \<Rightarrow> False | Some info \<Rightarrow> node_type info = ''FlashROM'')"
  by (simp add: Cartridge_load_def load_fields Let_def split_beta split: option.splits)

lemma load_rom:
  "rom (Cartridge_load h doc c) =
     (case rom_node doc of None \<Rightarrow> rom c
      | Some info \<Rightarrow>
          (rom c)\<lparr>rom_data := (rom_data (rom c))
            \<lparr>cells := mirror_loop (node_size info) (node_size info) (rom_size (rom c))
                        (loadRequest h ROM (node_name info) (cells (rom_data (rom c))))\<rparr>\<rparr>)"
  by (simp add: Cartridge_load_def load_fields Let_def split_beta split: option.splits)

lemma load_ram:
  "ram (Cartridge_load h doc c) =
     (case ram_node doc of None \<Rightarrow> ram c
      | Some info \<Rightarrow>
          if node_type info = ''SRAM'' \<or> node_type info = ''FRAM''
          then \<lparr> ram_data = (ram_data (ram c))
                    \<lparr>cells := loadRequest h RAM (node_name info)
                                (fill_loop 0 (node_size info) (cells (ram_data (ram c))))\<rparr>,
                  ram_size = node_size info, ram_mask = node_size info - 1 \<rparr>
          else ram c)"
  by (simp add: Cartridge_load_def load_fields Let_def split_beta split: option.splits)

lemma load_eeprom:
  "eeprom (Cartridge_load h doc c) =
     (case ram_node doc of None \<Rightarrow> eeprom c
      | Some info \<Rightarrow>
          if node_type info = ''EEPROM''
          then (eeprom c)
                 \<lparr> eeprom_data := (eeprom_data (eeprom c))
                    \<lparr>cells := loadRequest h EEPROM (node_name info)
                                (fill_loop 0 (if node_size info = 0 then 8192 else node_size info)
                                   (cells (eeprom_data (eeprom c))))\<rparr>,
                   eeprom_size := (if node_size info = 0 then 8192 else node_size info),
                   eeprom_bits := (if node_size info = 0 then 0
                                   else if node_size info \<le> 512 then 6 else 14),
                   eeprom_mask := (if 16 * 1024 * 1024 < fst (load_rom h (rom_node doc) c)
                                   then 0x0fffff00 else 0x0f000000),
                   eeprom_test := (if 16 * 1024 * 1024 < fst (load_rom h (rom_node doc) c)
                                   then 0x0dffff00 else 0x0d000000) \<rparr>
          else eeprom c)"
  by (simp add: Cartridge_load_def load_fields load_rom_fst Let_def split_beta
      split: option.splits)

lemma load_flashrom:
  "flashrom (Cartridge_load h doc c) =
     (case ram_node doc of None \<Rightarrow> flashrom c
      | Some info \<Rightarrow>
          if node_type info = ''FlashROM''
          then (flashrom c)
                 \<lparr> flashrom_data := (flashrom_data (flashrom c))
                    \<lparr>cells := loadRequest h FlashROM (node_name info)
                                (fill_loop 0 (node_size info) (cells (flashrom_data (flashrom c))))\<rparr>,
                   flashrom_id := node_id info,
                   flashrom_size := node_size info \<rparr>
          else flashrom c)"
  by (simp add: Cartridge_load_def load_fields Let_def split_beta split: option.splits)

section \<open>Clearing the low address bits\<close>

lemma and_not_mask_push:
  "(x :: 'a::len word) AND NOT (mask k) = push_bit k (drop_bit k x)"
  by (rule bit_word_eqI) (auto simp: bit_simps)

lemma low_bits_masks:
  "NOT 3 = NOT (mask 2 :: uint32)" "NOT 1 = NOT (mask 1 :: uint32)" "(3 :: uint32) = mask 2"
  by (simp_all add: mask_numeral)

lemma clear_low_mask:
  fixes m addr :: "'a::len word"
  assumes "m AND mask k = 0" and "j \<le> k"
  shows "(addr AND NOT (mask j)) AND m = addr AND m"
proof (rule bit_word_eqI)
  fix n
  assume "n < LENGTH('a)"
  have "\<not> bit (m AND mask k) n" using assms(1) by simp
  then have "bit m n \<Longrightarrow> \<not> n < k" using \<open>n < LENGTH('a)\<close> by (simp add: bit_simps)
  then show "bit ((addr AND NOT (mask j)) AND m) n \<longleftrightarrow> bit (addr AND m) n"
    using assms(2) \<open>n < LENGTH('a)\<close> by (auto simp: bit_simps)
qed

lemma clear_low_and:
  fixes m addr :: uint32
  assumes "m AND 3 = 0"
  shows "(addr AND NOT 3) AND m = addr AND m" and "(addr AND NOT 1) AND m = addr AND m"
  using assms unfolding low_bits_masks
  by (simp_all only: clear_low_mask [of m 2 2] clear_low_mask [of m 2 1])

lemma align4_push: "(x :: uint32) AND NOT 3 = push_bit 2 (drop_bit 2 x)"
  unfolding low_bits_masks by (rule and_not_mask_push)

lemma align2_push: "(x :: uint32) AND NOT 1 = push_bit 1 (drop_bit 1 x)"
  unfolding low_bits_masks by (rule and_not_mask_push)

lemma unat_align4: "unat ((x :: uint32) AND NOT 3) = 4 * (unat x div 4)"
proof -
  have "unat x div 4 < 2 ^ 30" using unsigned_less [of x, where 'a = nat] by simp
  then show ?thesis
  unfolding align4_push
  by (simp add: push_bit_eq_mult unat_word_ariths unat_drop_bit_eq drop_bit_eq_div)
qed

lemma unat_align2: "unat ((x :: uint32) AND NOT 1) = 2 * (unat x div 2)"
proof -
  have "unat x div 2 < 2 ^ 31" using unsigned_less [of x, where 'a = nat] by simp
  then show ?thesis
  unfolding align2_push
  by (simp add: push_bit_eq_mult unat_word_ariths unat_drop_bit_eq drop_bit_eq_div)
qed

lemma below_aligned4:
  "((addr :: uint32) AND NOT 3 < 0x0e000000) = (addr < 0x0e000000)"
  by (simp only: word_less_nat_alt unat_align4, simp, arith)

lemma below_aligned2:
  "((addr :: uint32) AND NOT 1 < 0x0e000000) = (addr < 0x0e000000)"
  by (simp only: word_less_nat_alt unat_align2, simp, arith)

lemma top_aligned:
  "((addr::uint32) AND NOT 3) AND 0x0e000000 = addr AND 0x0e000000"
  "((addr::uint32) AND NOT 1) AND 0x0e000000 = addr AND 0x0e000000"
  "((addr::uint32) AND NOT 3) AND 0x01ffffff AND NOT 3 = addr AND 0x01ffffff AND NOT 3"
  "((addr::uint32) AND NOT 1) AND 0x01ffffff AND NOT 1 = addr AND 0x01ffffff AND NOT 1"
  "((addr::uint32) AND NOT 3) AND m AND NOT 3 = addr AND m AND NOT 3"
  "((addr::uint32) AND NOT 1) AND m AND NOT 1 = addr AND m AND NOT 1"
  by (simp_all add: and.assoc and.left_commute)

section \<open>The example cartridges\<close>

lemma example_flags:
  "has_sram (Cartridge_load no_files sram_32K fresh)"
  "\<not> has_sram (Cartridge_load no_files eeprom_512 fresh)"
  "has_eeprom (Cartridge_load no_files eeprom_512 fresh)"
  "\<not> has_sram (Cartridge_load no_files flashrom_64K fresh)"
  "\<not> has_eeprom (Cartridge_load no_files flashrom_64K fresh)"
  "has_flashrom (Cartridge_load no_files flashrom_64K fresh)"
  "\<not> has_sram fresh" "\<not> has_eeprom fresh" "\<not> has_flashrom fresh"
  by (simp_all add: load_defs Let_def sram_32K_def eeprom_512_def flashrom_64K_def
      fresh_def Cartridge_new_def split: prod.splits)

lemma example_sizes:
  "ram_size (ram (Cartridge_load no_files sram_32K fresh)) = 0x8000"
  "eeprom_size (eeprom (Cartridge_load no_files eeprom_512 fresh)) = 512"
  "flashrom_size (flashrom (Cartridge_load no_files flashrom_64K fresh)) = 0x10000"
  by (simp_all add: load_defs Let_def sram_32K_def eeprom_512_def flashrom_64K_def
      split: prod.splits)

lemma cart_sram_32K_flags:
  "has_sram cart_sram_32K" "\<not> has_eeprom cart_sram_32K" "\<not> has_flashrom cart_sram_32K"
  by (simp_all add: cart_sram_32K_def load_has_sram load_has_eeprom load_has_flashrom sram_32K_def)

lemma cart_sram_32K_rom:
  "rom cart_sram_32K = \<lparr> rom_data = \<lparr> cells = (\<lambda>i. 0), extent = 32 * 1024 * 1024 \<rparr>,
                          rom_size = 32 * 1024 * 1024 \<rparr>"
  by (simp add: cart_sram_32K_def load_rom sram_32K_def rom_8M_def fresh_def Cartridge_new_def
      zero_heap_def no_files_def mirror_loop_cells)

lemma cart_sram_32K_ram:
  "ram cart_sram_32K =
     \<lparr> ram_data = \<lparr> cells = (\<lambda>i. if i < 32768 then 0xff else 0), extent = 32 * 1024 \<rparr>,
       ram_size = 0x8000, ram_mask = 0x7fff \<rparr>"
  by (simp add: cart_sram_32K_def load_ram sram_32K_def fresh_def Cartridge_new_def
      zero_heap_def no_files_def fill_loop_cells)

lemma cart_sram_32K_others:
  "eeprom cart_sram_32K = eeprom fresh" "flashrom cart_sram_32K = flashrom fresh"
  by (simp_all add: cart_sram_32K_def load_eeprom load_flashrom sram_32K_def)

lemma cart_sram_64K_flags:
  "has_sram cart_sram_64K" "\<not> has_eeprom cart_sram_64K" "\<not> has_flashrom cart_sram_64K"
  by (simp_all add: cart_sram_64K_def load_has_sram load_has_eeprom load_has_flashrom sram_64K_def)

lemma cart_sram_64K_ram:
  "ram cart_sram_64K =
     \<lparr> ram_data = \<lparr> cells = (\<lambda>i. if i < 65536 then 0xff else 0), extent = 32 * 1024 \<rparr>,
       ram_size = 0x10000, ram_mask = 0xffff \<rparr>"
  by (simp add: cart_sram_64K_def load_ram sram_64K_def fresh_def Cartridge_new_def
      zero_heap_def no_files_def fill_loop_cells)

lemma cart_flashrom_64K_flags:
  "\<not> has_sram cart_flashrom_64K" "\<not> has_eeprom cart_flashrom_64K" "has_flashrom cart_flashrom_64K"
  by (simp_all add: cart_flashrom_64K_def load_has_sram load_has_eeprom load_has_flashrom
      flashrom_64K_def)

lemma cart_flashrom_64K_cells:
  "cells (flashrom_data (flashrom cart_flashrom_64K))
     = (\<lambda>i. if i < 65536 then of_nat i else 0)"
  by (simp add: cart_flashrom_64K_def load_flashrom flashrom_64K_def save_files_def
      fill_loop_cells fresh_def Cartridge_new_def zero_heap_def cong: if_cong)

section \<open>Byte order of the buffer accessors\<close>

lemma compose_word:
  fixes b0 b1 b2 b3 :: uint8
  defines "r \<equiv> (push_bit 0 (ucast b0) OR push_bit 8 (ucast b1)
                   OR push_bit 16 (ucast b2) OR push_bit 24 (ucast b3) :: uint32)"
  shows "ucast r = b0" and "ucast (drop_bit 8 r) = b1"
    and "ucast (drop_bit 16 r) = b2" and "ucast (drop_bit 24 r) = b3"
  unfolding r_def
  by (rule bit_word_eqI; auto simp: bit_simps dest: bit_imp_le_length)+

lemma compose_half:
  fixes b0 b1 :: uint8
  defines "r \<equiv> (push_bit 0 (ucast b0) OR push_bit 8 (ucast b1) :: uint32)"
  shows "ucast r = b0" and "ucast (drop_bit 8 r) = b1" and "drop_bit 16 r = 0"
  unfolding r_def
  by (rule bit_word_eqI; auto simp: bit_simps dest: bit_imp_le_length)+

lemma read_data_Word:
  "Cartridge_read_data data addr Word =
     push_bit 0 (ucast (data (unat (addr AND NOT 3) + 0)))
       OR push_bit 8 (ucast (data (unat (addr AND NOT 3) + 1)))
       OR push_bit 16 (ucast (data (unat (addr AND NOT 3) + 2)))
       OR push_bit 24 (ucast (data (unat (addr AND NOT 3) + 3)))"
  unfolding Cartridge_read_data_def Let_def by simp

lemma read_data_Half:
  "Cartridge_read_data data addr Half =
     push_bit 0 (ucast (data (unat (addr AND NOT 1) + 0)))
       OR push_bit 8 (ucast (data (unat (addr AND NOT 1) + 1)))"
  unfolding Cartridge_read_data_def Let_def by simp

lemma read_data_Byte: "Cartridge_read_data data addr Byte = ucast (data (unat addr))"
  unfolding Cartridge_read_data_def Let_def by simp

lemma write_data_Word:
  "Cartridge_write_data data addr Word word =
     data(unat (addr AND NOT 3) := ucast word,
          unat (addr AND NOT 3) + 1 := ucast (drop_bit 8 word),
          unat (addr AND NOT 3) + 2 := ucast (drop_bit 16 word),
          unat (addr AND NOT 3) + 3 := ucast (drop_bit 24 word))"
  by (auto simp: Cartridge_write_data_def Let_def fun_eq_iff)

lemma write_data_Half:
  "Cartridge_write_data data addr Half word =
     data(unat (addr AND NOT 1) := ucast word,
          unat (addr AND NOT 1) + 1 := ucast (drop_bit 8 word))"
  by (auto simp: Cartridge_write_data_def Let_def fun_eq_iff)

lemma write_data_Byte:
  "Cartridge_write_data data addr Byte word = data(unat addr := ucast word)"
  by (simp add: Cartridge_write_data_def Let_def)

text \<open>
  Claim C2. Word and Half accesses to a buffer are little-endian. With \<open>a\<close> the
  lowest offset of the access (the address with its low bits cleared), a Word read
  returns cell \<open>a\<close> in bits 0 to 7, cell \<open>a + 1\<close> in bits 8 to 15, cell \<open>a + 2\<close> in
  bits 16 to 23 and cell \<open>a + 3\<close> in bits 24 to 31; a Half read returns cell \<open>a\<close> in
  bits 0 to 7, cell \<open>a + 1\<close> in bits 8 to 15 and nothing above; a Word write stores
  bits 0 to 7 of the value in cell \<open>a\<close> and bits 24 to 31 in cell \<open>a + 3\<close>; a Half
  write stores bits 0 to 7 in cell \<open>a\<close> and bits 8 to 15 in cell \<open>a + 1\<close>; a Byte
  access transfers the one cell at the address. No other cell is written.
\<close>

theorem little_endian_access:
  "(let a = unat (addr AND NOT 3); r = Cartridge_read_data data addr Word
    in ucast r = data a \<and> ucast (drop_bit 8 r) = data (a + 1)
       \<and> ucast (drop_bit 16 r) = data (a + 2) \<and> ucast (drop_bit 24 r) = data (a + 3))
   \<and> (let a = unat (addr AND NOT 1); r = Cartridge_read_data data addr Half
      in ucast r = data a \<and> ucast (drop_bit 8 r) = data (a + 1) \<and> drop_bit 16 r = 0)
   \<and> Cartridge_read_data data addr Byte = ucast (data (unat addr))
   \<and> (let a = unat (addr AND NOT 3)
      in Cartridge_write_data data addr Word word =
           data(a := ucast word, a + 1 := ucast (drop_bit 8 word),
                a + 2 := ucast (drop_bit 16 word), a + 3 := ucast (drop_bit 24 word)))
   \<and> (let a = unat (addr AND NOT 1)
      in Cartridge_write_data data addr Half word =
           data(a := ucast word, a + 1 := ucast (drop_bit 8 word)))
   \<and> Cartridge_write_data data addr Byte word = data(unat addr := ucast word)"
proof -
  have w: "ucast (Cartridge_read_data data addr Word) = data (unat (addr AND NOT 3))"
    "ucast (drop_bit 8 (Cartridge_read_data data addr Word)) = data (unat (addr AND NOT 3) + 1)"
    "ucast (drop_bit 16 (Cartridge_read_data data addr Word)) = data (unat (addr AND NOT 3) + 2)"
    "ucast (drop_bit 24 (Cartridge_read_data data addr Word)) = data (unat (addr AND NOT 3) + 3)"
    unfolding read_data_Word using compose_word [of "data (unat (addr AND NOT 3) + 0)"]
    by simp_all
  have h: "ucast (Cartridge_read_data data addr Half) = data (unat (addr AND NOT 1))"
    "ucast (drop_bit 8 (Cartridge_read_data data addr Half)) = data (unat (addr AND NOT 1) + 1)"
    "drop_bit 16 (Cartridge_read_data data addr Half) = 0"
    unfolding read_data_Half using compose_half [of "data (unat (addr AND NOT 1) + 0)"]
    by simp_all
  show ?thesis
    unfolding Let_def
    using w h read_data_Byte write_data_Word write_data_Half write_data_Byte
    by blast
qed

section \<open>Configuration of the EEPROM by load\<close>

text \<open>
  Claim C4. When the manifest selects an EEPROM, load sets the address bits to 6 for
  a size from 1 to 512, to 14 for a larger size, and for size 0 resolves the size to
  8192 with 0 address bits (auto-detect). The recognition mask and pattern are
  \<open>0x0FFFFF00\<close> and \<open>0x0DFFFF00\<close> exactly when the image size of the manifest is above
  16 MiB, and \<open>0x0F000000\<close> and \<open>0x0D000000\<close> otherwise. The image size is that of
  the rom node, 0 without one.
\<close>

theorem eeprom_configuration:
  assumes "ram_node doc = Some info" and "node_type info = ''EEPROM''"
  shows "(let c' = Cartridge_load h doc c;
              sz = node_size info;
              romsize = (case rom_node doc of None \<Rightarrow> 0 | Some r \<Rightarrow> node_size r)
          in has_eeprom c'
             \<and> (sz \<noteq> 0 \<and> sz \<le> 512 \<longrightarrow> eeprom_bits (eeprom c') = 6 \<and> eeprom_size (eeprom c') = sz)
             \<and> (512 < sz \<longrightarrow> eeprom_bits (eeprom c') = 14 \<and> eeprom_size (eeprom c') = sz)
             \<and> (sz = 0 \<longrightarrow> eeprom_bits (eeprom c') = 0 \<and> eeprom_size (eeprom c') = 8192)
             \<and> (16 * 1024 * 1024 < romsize \<longrightarrow>
                  eeprom_mask (eeprom c') = 0x0fffff00 \<and> eeprom_test (eeprom c') = 0x0dffff00)
             \<and> (\<not> 16 * 1024 * 1024 < romsize \<longrightarrow>
                  eeprom_mask (eeprom c') = 0x0f000000 \<and> eeprom_test (eeprom c') = 0x0d000000))"
  using assms
  by (auto simp: load_defs Let_def split: option.splits prod.splits)

theorem eeprom_configuration_witness:
  "ram_node eeprom_512 = Some \<lparr> node_name = ''save.ram'', node_type = ''EEPROM'',
                                node_size = 512, node_id = 0 \<rparr>
   \<and> has_eeprom (Cartridge_load no_files eeprom_512 fresh)
   \<and> eeprom_bits (eeprom (Cartridge_load no_files eeprom_512 fresh)) = 6
   \<and> eeprom_size (eeprom (Cartridge_load no_files eeprom_512 fresh)) = 512
   \<and> eeprom_mask (eeprom (Cartridge_load no_files eeprom_512 fresh)) = 0x0f000000
   \<and> eeprom_test (eeprom (Cartridge_load no_files eeprom_512 fresh)) = 0x0d000000"
proof -
  let ?info = "\<lparr> node_name = ''save.ram'', node_type = ''EEPROM'', node_size = 512, node_id = 0 \<rparr>"
  have n: "ram_node eeprom_512 = Some ?info" by (simp add: eeprom_512_def)
  have t: "node_type ?info = ''EEPROM''" by simp
  have r: "rom_node eeprom_512 = Some rom_8M" by (simp add: eeprom_512_def)
  show ?thesis
    using eeprom_configuration [OF n t, of no_files fresh] n
    by (simp add: Let_def r rom_8M_def)
qed

section \<open>The storage exposed to the frontend\<close>

text \<open>
  Claim C7. \<open>ram_data()\<close> and \<open>ram_size()\<close> expose one storage buffer: that of the
  battery RAM if it is configured, else that of the EEPROM if it is configured, else
  that of the FlashROM if it is configured; with no storage chip configured,
  \<open>ram_data()\<close> is the null pointer and \<open>ram_size()\<close> is 0.
\<close>

theorem exposed_storage:
  "(has_sram c \<longrightarrow>
      Cartridge_ram_data c = Some (ram_data (ram c)) \<and> Cartridge_ram_size c = ram_size (ram c))
   \<and> (\<not> has_sram c \<and> has_eeprom c \<longrightarrow>
      Cartridge_ram_data c = Some (eeprom_data (eeprom c))
      \<and> Cartridge_ram_size c = eeprom_size (eeprom c))
   \<and> (\<not> has_sram c \<and> \<not> has_eeprom c \<and> has_flashrom c \<longrightarrow>
      Cartridge_ram_data c = Some (flashrom_data (flashrom c))
      \<and> Cartridge_ram_size c = flashrom_size (flashrom c))
   \<and> (\<not> has_sram c \<and> \<not> has_eeprom c \<and> \<not> has_flashrom c \<longrightarrow>
      Cartridge_ram_data c = None \<and> Cartridge_ram_size c = 0)"
  by (simp add: Cartridge_ram_data_def Cartridge_ram_size_def)

theorem exposed_storage_witness:
  "Cartridge_ram_size (Cartridge_load no_files sram_32K fresh) = 0x8000
   \<and> Cartridge_ram_size (Cartridge_load no_files eeprom_512 fresh) = 512
   \<and> Cartridge_ram_size (Cartridge_load no_files flashrom_64K fresh) = 0x10000
   \<and> Cartridge_ram_data fresh = None \<and> Cartridge_ram_size fresh = 0"
  using exposed_storage [of "Cartridge_load no_files sram_32K fresh"]
    exposed_storage [of "Cartridge_load no_files eeprom_512 fresh"]
    exposed_storage [of "Cartridge_load no_files flashrom_64K fresh"]
    exposed_storage [of fresh]
  by (simp add: example_flags example_sizes)

section \<open>Unloading\<close>

text \<open>
  Claim C8 as stated fails: after a cartridge with 32 KiB of battery RAM is loaded
  and unloaded, the battery RAM is still configured and still exposed with its
  32768 bytes, and the four buffers are what they were before the unload.
\<close>

theorem unload_clears_counterexample:
  "has_sram (Cartridge_unload (Cartridge_load no_files sram_32K fresh))
   \<and> Cartridge_ram_size (Cartridge_unload (Cartridge_load no_files sram_32K fresh)) = 0x8000
   \<and> rom (Cartridge_unload (Cartridge_load no_files sram_32K fresh))
       = rom (Cartridge_load no_files sram_32K fresh)
   \<and> ram (Cartridge_unload (Cartridge_load no_files sram_32K fresh))
       = ram (Cartridge_load no_files sram_32K fresh)
   \<and> eeprom (Cartridge_unload (Cartridge_load no_files sram_32K fresh))
       = eeprom (Cartridge_load no_files sram_32K fresh)
   \<and> flashrom (Cartridge_unload (Cartridge_load no_files sram_32K fresh))
       = flashrom (Cartridge_load no_files sram_32K fresh)"
  by (simp add: Cartridge_unload_def Cartridge_ram_size_def example_flags example_sizes)

text \<open>
  Claim C8, amended. \<open>unload()\<close> clears the loaded flag and, when the cartridge was
  loaded, empties the list of save memories; the image, battery-RAM, EEPROM and
  FlashROM buffers and the chip-presence flags stay as they are. It is idempotent:
  a second call changes nothing.
\<close>

theorem unload_effect:
  "Cartridge_unload c = c\<lparr> loaded := False, memory := (if loaded c then [] else memory c) \<rparr>
   \<and> rom (Cartridge_unload c) = rom c \<and> ram (Cartridge_unload c) = ram c
   \<and> eeprom (Cartridge_unload c) = eeprom c \<and> flashrom (Cartridge_unload c) = flashrom c
   \<and> has_sram (Cartridge_unload c) = has_sram c
   \<and> has_eeprom (Cartridge_unload c) = has_eeprom c
   \<and> has_flashrom (Cartridge_unload c) = has_flashrom c
   \<and> Cartridge_unload (Cartridge_unload c) = Cartridge_unload c"
  by (simp add: Cartridge_unload_def)

section \<open>Dispatch of the bus functions\<close>

lemma write_to_simps:
  "write_to E c (BatteryRam i) sz word =
     store_ram c (Cartridge_write_data (cells (ram_data (ram c))) i sz word)"
  "write_to E c Eeprom sz word = c\<lparr>eeprom := EEPROM_write E (eeprom c) (word AND 1)\<rparr>"
  "write_to E c (FlashRom a) sz word = c\<lparr>flashrom := FlashROM_write E (flashrom c) a word\<rparr>"
  "write_to E c (Image i) sz word = c"
  "write_to E c OpenBus sz word = c"
  by (simp_all add: write_to_def)

lemma read_from_simps:
  "read_from E fetch c (BatteryRam i) sz = (Cartridge_read_data (cells (ram_data (ram c))) i sz, c)"
  "read_from E fetch c Eeprom sz =
     (fst (EEPROM_read E (eeprom c)), c\<lparr>eeprom := snd (EEPROM_read E (eeprom c))\<rparr>)"
  "read_from E fetch c (FlashRom a) sz =
     (fst (FlashROM_read E (flashrom c) a), c\<lparr>flashrom := snd (FlashROM_read E (flashrom c) a)\<rparr>)"
  "read_from E fetch c (Image i) sz = (Cartridge_read_data (cells (rom_data (rom c))) i sz, c)"
  "read_from E fetch c OpenBus sz = (fetch, c)"
  by (simp_all add: read_from_def)

lemma write_classify:
  "Cartridge_write E c addr sz word = write_to E c (classify c addr) sz word"
  unfolding Cartridge_write_def classify_def
    if_distrib [of "\<lambda>d. write_to E c d sz word"] write_to_simps store_ram_def if_cancel
  by (rule refl)

lemma read_classify:
  "Cartridge_read E fetch c addr sz = read_from E fetch c (classify c addr) sz"
  unfolding Cartridge_read_def classify_def
    if_distrib [of "\<lambda>d. read_from E fetch c d sz"] read_from_simps Let_def split_beta
  by (rule refl)

text \<open>
  Claim C1 as stated fails for writes. On the example cartridge (8 MiB image, 32 KiB
  battery RAM) the address \<open>0x08000000\<close> is classified to the image at index 0, where
  the image holds 0. A write of \<open>0x42\<close> there leaves the whole cartridge as it was;
  dispatched to the image, it would have stored \<open>0x42\<close> in cell 0.
\<close>

theorem write_dispatch_counterexample:
  "classify cart_sram_32K 0x08000000 = Image 0
   \<and> cells (rom_data (rom cart_sram_32K)) 0 = 0
   \<and> Cartridge_write idle_chips cart_sram_32K 0x08000000 Byte 0x42 = cart_sram_32K
   \<and> cells (rom_data (rom (write_to_as_claimed idle_chips cart_sram_32K
                              (classify cart_sram_32K 0x08000000) Byte 0x42))) 0 = 0x42"
proof -
  have c: "classify cart_sram_32K 0x08000000 = Image 0"
    by (simp add: classify_def cart_sram_32K_flags)
  have w: "Cartridge_write idle_chips cart_sram_32K 0x08000000 Byte 0x42 = cart_sram_32K"
    by (simp add: Cartridge_write_def cart_sram_32K_flags)
  have r: "cells (rom_data (rom cart_sram_32K)) 0 = 0"
    by (simp add: cart_sram_32K_rom)
  have a: "cells (rom_data (rom (write_to_as_claimed idle_chips cart_sram_32K
                                  (Image 0) Byte 0x42))) 0 = 0x42"
    by (simp add: write_to_as_claimed_def store_rom_def write_data_Byte)
  show ?thesis using c w r a by simp
qed

text \<open>
  Claim C1, amended. Every read and every write is dispatched to the one destination
  that the classification gives, by first match in the order battery RAM (at
  \<open>address AND ram.mask\<close>), EEPROM, FlashROM (at the address), image (at
  \<open>address AND 0x01FFFFFF\<close>), open bus. A read of the image returns the buffer
  contents and a read of the open bus returns the last instruction fetched; a write
  to either of the two has no effect on the cartridge.
\<close>

theorem bus_dispatch:
  "Cartridge_read E fetch c addr sz = read_from E fetch c (classify c addr) sz
   \<and> Cartridge_write E c addr sz word = write_to E c (classify c addr) sz word"
  by (simp add: read_classify write_classify)

theorem bus_dispatch_witness:
  "Cartridge_read idle_chips 7 cart_sram_32K 0x0E000010 Byte = (0xff, cart_sram_32K)
   \<and> fst (Cartridge_read idle_chips 7 (Cartridge_load no_files eeprom_512 fresh) 0x0D000000 Half) = 1
   \<and> fst (Cartridge_read idle_chips 7 cart_flashrom_64K 0x0E000010 Byte) = 0x10
   \<and> Cartridge_read idle_chips 7 cart_sram_32K 0x08000010 Word = (0, cart_sram_32K)
   \<and> Cartridge_read idle_chips 7 fresh 0x0E000000 Word = (7, fresh)
   \<and> Cartridge_write idle_chips fresh 0x0E000000 Word 1 = fresh
   \<and> Cartridge_write idle_chips cart_sram_32K 0x08000010 Word 1 = cart_sram_32K"
proof -
  let ?e = "Cartridge_load no_files eeprom_512 fresh"
  have e: "eeprom_mask (eeprom ?e) = 0x0f000000" "eeprom_test (eeprom ?e) = 0x0d000000"
    by (simp_all add: load_eeprom load_rom_fst eeprom_512_def rom_8M_def)
  have c: "classify cart_sram_32K 0x0E000010 = BatteryRam 0x10"
    "classify ?e 0x0D000000 = Eeprom"
    "classify cart_flashrom_64K 0x0E000010 = FlashRom 0x0E000010"
    "classify cart_sram_32K 0x08000010 = Image 0x10"
    "classify fresh 0x0E000000 = OpenBus"
    by (simp_all add: classify_def cart_sram_32K_flags cart_sram_32K_ram example_flags e
        cart_flashrom_64K_flags)
  show ?thesis
    using bus_dispatch [of idle_chips 7 cart_sram_32K "0x0E000010" Byte]
      bus_dispatch [of idle_chips 7 ?e "0x0D000000" Half]
      bus_dispatch [of idle_chips 7 cart_flashrom_64K "0x0E000010" Byte]
      bus_dispatch [of idle_chips 7 cart_sram_32K "0x08000010" Word 1]
      bus_dispatch [of idle_chips 7 fresh "0x0E000000" Word 1]
    by (simp add: c read_from_simps write_to_simps read_data_Byte read_data_Word
        cart_sram_32K_ram cart_sram_32K_rom idle_chips_def cart_flashrom_64K_cells)
qed

section \<open>The cells an access touches\<close>

text \<open>
  A buffer access touches the \<open>span\<close> cells from the aligned offset on, in
  little-endian order: a read returns exactly these cells, a write replaces exactly
  these cells, and no other cell matters or changes.
\<close>

lemma span_pos: "0 < span sz"
  by (cases sz) (simp_all add: span_def)

lemma align_cases:
  "align x Byte = x" "align x Half = x AND NOT 1" "align x Word = x AND NOT 3"
  by (simp_all add: align_def)

lemma unat_align:
  "unat (align i sz) = (case sz of Word \<Rightarrow> 4 * (unat i div 4) | Half \<Rightarrow> 2 * (unat i div 2) | Byte \<Rightarrow> unat i)"
  by (cases sz; simp only: align_def width.case unat_align4 unat_align2)

lemma ucast_byte: "ucast (ucast (b :: uint8) :: uint32) = b"
  by (rule bit_word_eqI) (auto simp: bit_simps)

lemma read_data_cells:
  assumes "j < span sz"
  shows "byte_of (Cartridge_read_data d a sz) j = d (unat (align a sz) + j)"
proof (cases sz)
  case Byte
  then have "j = 0" using assms by (simp add: span_def)
  then show ?thesis using Byte
    by (simp add: byte_of_def read_data_Byte align_def ucast_byte)
next
  case Half
  then have "j = 0 \<or> j = 1" using assms by (auto simp: span_def)
  then show ?thesis
    unfolding Half byte_of_def read_data_Half align_cases
    using compose_half [of "d (unat (a AND NOT 1) + 0)" "d (unat (a AND NOT 1) + 1)"]
    by auto
next
  case Word
  then have "j = 0 \<or> j = 1 \<or> j = 2 \<or> j = 3" using assms by (auto simp: span_def)
  then show ?thesis
    unfolding Word byte_of_def read_data_Word align_cases
    using compose_word [of "d (unat (a AND NOT 3) + 0)" "d (unat (a AND NOT 3) + 1)"
        "d (unat (a AND NOT 3) + 2)" "d (unat (a AND NOT 3) + 3)"]
    by auto
qed

lemma read_data_high: "drop_bit (8 * span sz) (Cartridge_read_data d a sz) = 0"
proof (cases sz)
  case Byte
  have "drop_bit 8 (ucast (b :: uint8) :: uint32) = 0" for b
    by (rule bit_word_eqI) (auto simp: bit_simps dest: bit_imp_le_length)
  then show ?thesis using Byte by (simp add: span_def read_data_Byte)
next
  case Half
  show ?thesis
    unfolding Half read_data_Half
    using compose_half(3) [of "d (unat (a AND NOT 1) + 0)" "d (unat (a AND NOT 1) + 1)"]
    by (simp add: span_def)
next
  case Word
  have "drop_bit 32 (w :: uint32) = 0" for w
    by (rule bit_word_eqI) (auto simp: bit_simps dest: bit_imp_le_length)
  then show ?thesis using Word by (simp add: span_def)
qed

lemma write_data_cells:
  "Cartridge_write_data d a sz word = store_bytes d (unat (align a sz)) (span sz) word"
proof (cases sz)
  case Byte
  then show ?thesis
    by (auto simp: write_data_Byte store_bytes_def byte_of_def align_def span_def fun_eq_iff)
next
  case Half
  have "n = b \<or> n = b + 1" if "b \<le> n" "n < b + 2" for n b :: nat using that by arith
  then show ?thesis
    unfolding Half write_data_Half align_cases
    by (auto simp: store_bytes_def byte_of_def span_def fun_eq_iff)
next
  case Word
  have "n = b \<or> n = b + 1 \<or> n = b + 2 \<or> n = b + 3" if "b \<le> n" "n < b + 4" for n b :: nat
    using that by arith
  then show ?thesis
    unfolding Word write_data_Word align_cases
    by (auto simp: store_bytes_def byte_of_def span_def fun_eq_iff)
qed

lemma read_data_footprint:
  assumes "\<And>j. j < span sz \<Longrightarrow> d (unat (align a sz) + j) = d' (unat (align a sz) + j)"
  shows "Cartridge_read_data d a sz = Cartridge_read_data d' a sz"
proof (cases sz)
  case Byte
  then show ?thesis using assms [of 0] by (simp add: read_data_Byte align_def span_def)
next
  case Half
  then show ?thesis using assms [of 0] assms [of 1]
    by (simp add: read_data_Half align_def span_def)
next
  case Word
  then show ?thesis using assms [of 0] assms [of 1] assms [of 2] assms [of 3]
    by (simp add: read_data_Word align_def span_def)
qed

lemma classify_store:
  "classify (store_ram c d) addr = classify c addr"
  "classify (store_rom c d) addr = classify c addr"
  by (simp_all add: classify_def store_ram_def store_rom_def)

lemma ram_route:
  assumes "classify c addr = BatteryRam i"
  shows "i = addr AND ram_mask (ram c)"
    and "Cartridge_read E fetch c addr sz = (Cartridge_read_data (cells (ram_data (ram c))) i sz, c)"
    and "Cartridge_write E c addr sz word =
           store_ram c (store_bytes (cells (ram_data (ram c))) (unat (align i sz)) (span sz) word)"
proof -
  show "i = addr AND ram_mask (ram c)"
    using assms by (auto simp: classify_def split: if_splits)
  show "Cartridge_read E fetch c addr sz = (Cartridge_read_data (cells (ram_data (ram c))) i sz, c)"
    by (simp only: read_classify assms read_from_simps)
  show "Cartridge_write E c addr sz word =
          store_ram c (store_bytes (cells (ram_data (ram c))) (unat (align i sz)) (span sz) word)"
    by (simp only: write_classify assms write_to_simps write_data_cells)
qed

lemma image_route:
  assumes "classify c addr = Image i"
  shows "i = addr AND 0x01ffffff"
    and "Cartridge_read E fetch c addr sz = (Cartridge_read_data (cells (rom_data (rom c))) i sz, c)"
    and "Cartridge_write E c addr sz word = c"
proof -
  show "i = addr AND 0x01ffffff"
    using assms by (auto simp: classify_def split: if_splits)
  show "Cartridge_read E fetch c addr sz = (Cartridge_read_data (cells (rom_data (rom c))) i sz, c)"
    by (simp only: read_classify assms read_from_simps)
  show "Cartridge_write E c addr sz word = c"
    by (simp only: write_classify assms write_to_simps)
qed

lemma other_routes:
  "classify c addr = Eeprom \<Longrightarrow>
     Cartridge_read E fetch c addr sz
       = (fst (EEPROM_read E (eeprom c)), c\<lparr>eeprom := snd (EEPROM_read E (eeprom c))\<rparr>)
     \<and> Cartridge_write E c addr sz word = c\<lparr>eeprom := EEPROM_write E (eeprom c) (word AND 1)\<rparr>"
  "classify c addr = OpenBus \<Longrightarrow>
     Cartridge_read E fetch c addr sz = (fetch, c) \<and> Cartridge_write E c addr sz word = c"
  "classify c addr = FlashRom a \<Longrightarrow>
     a = addr
     \<and> Cartridge_read E fetch c addr sz
         = (fst (FlashROM_read E (flashrom c) addr), c\<lparr>flashrom := snd (FlashROM_read E (flashrom c) addr)\<rparr>)
     \<and> Cartridge_write E c addr sz word = c\<lparr>flashrom := FlashROM_write E (flashrom c) addr word\<rparr>"
  by (auto simp: read_classify write_classify read_from_simps write_to_simps classify_def
      split: if_splits)

section \<open>Alignment of Half and Word accesses\<close>

lemma realign_masked:
  "(((addr :: uint32) AND NOT 3) AND m) AND NOT 3 = (addr AND m) AND NOT 3"
  "(((addr :: uint32) AND NOT 1) AND m) AND NOT 1 = (addr AND m) AND NOT 1"
  by (simp_all add: ac_simps)

lemma read_data_align:
  "Cartridge_read_data data (align addr sz AND m) sz = Cartridge_read_data data (addr AND m) sz"
  by (cases sz; simp only: align_def width.case read_data_Byte read_data_Half read_data_Word realign_masked)

lemma write_data_align:
  "Cartridge_write_data data (align addr sz AND m) sz word =
     Cartridge_write_data data (addr AND m) sz word"
  by (cases sz; simp only: align_def width.case write_data_Byte write_data_Half write_data_Word realign_masked)

lemma align_top: "align addr sz AND 0x0e000000 = addr AND 0x0e000000"
  by (cases sz; simp only: align_def width.case top_aligned)

lemma align_below: "(align addr sz < 0x0e000000) = (addr < 0x0e000000)"
  by (cases sz; simp only: align_def width.case below_aligned4 below_aligned2)

lemma align_window: "m AND 3 = 0 \<Longrightarrow> align addr sz AND m = addr AND m"
  by (cases sz; simp only: align_def width.case clear_low_and)

lemma classify_align:
  assumes "has_eeprom c \<longrightarrow> eeprom_mask (eeprom c) AND 3 = 0"
  shows "classify c (align addr sz) =
           (case classify c addr of
              BatteryRam i \<Rightarrow> BatteryRam (align addr sz AND ram_mask (ram c))
            | Eeprom \<Rightarrow> Eeprom
            | FlashRom a \<Rightarrow> FlashRom (align addr sz)
            | Image i \<Rightarrow> Image (align addr sz AND 0x01ffffff)
            | OpenBus \<Rightarrow> OpenBus)"
proof -
  have e: "(has_eeprom c \<and> align addr sz AND eeprom_mask (eeprom c) = eeprom_test (eeprom c))
           = (has_eeprom c \<and> addr AND eeprom_mask (eeprom c) = eeprom_test (eeprom c))"
    using assms align_window [of "eeprom_mask (eeprom c)" addr sz] by (cases "has_eeprom c") simp_all
  show ?thesis
    unfolding classify_def [of c "align addr sz"] align_top align_below e
    unfolding classify_def if_distrib [of "case_destination _ _ _ _ _"] destination.case
    by (rule refl)
qed

lemma load_eeprom_window:
  "has_eeprom (Cartridge_load h doc c) \<longrightarrow> eeprom_mask (eeprom (Cartridge_load h doc c)) AND 3 = 0"
  by (simp add: load_has_eeprom load_eeprom split: option.splits)

text \<open>
  Claim C3 as stated fails on the FlashROM route. On a cartridge with a 64 KiB
  FlashROM whose save file holds the bytes 0, 1, 2, ..., a Half read at
  \<open>0x0E000001\<close> is classified to the FlashROM with the address as issued and returns
  byte 1; at the realigned address \<open>0x0E000000\<close> it returns byte 0.
\<close>

theorem realignment_counterexample:
  "align 0x0E000001 Half = 0x0E000000
   \<and> classify cart_flashrom_64K 0x0E000001 = FlashRom 0x0E000001
   \<and> fst (Cartridge_read idle_chips 0 cart_flashrom_64K 0x0E000001 Half) = 1
   \<and> fst (Cartridge_read idle_chips 0 cart_flashrom_64K (align 0x0E000001 Half) Half) = 0"
proof -
  have a: "align 0x0E000001 Half = 0x0E000000" by (simp add: align_def)
  have c1: "classify cart_flashrom_64K 0x0E000001 = FlashRom 0x0E000001"
    by (simp add: classify_def cart_flashrom_64K_flags)
  have c0: "classify cart_flashrom_64K 0x0E000000 = FlashRom 0x0E000000"
    by (simp add: classify_def cart_flashrom_64K_flags)
  have r1: "fst (Cartridge_read idle_chips 0 cart_flashrom_64K 0x0E000001 Half) = 1"
    by (simp add: read_classify c1 read_from_simps idle_chips_def cart_flashrom_64K_cells)
  have r0: "fst (Cartridge_read idle_chips 0 cart_flashrom_64K 0x0E000000 Half) = 0"
    by (simp add: read_classify c0 read_from_simps idle_chips_def cart_flashrom_64K_cells)
  show ?thesis using a c1 r1 r0 by simp
qed

text \<open>
  Claim C3, amended. For a Half access bit 0, and for a Word access bits 0 and 1, of
  the offset into the buffer are cleared by the buffer accessors, on the battery-RAM
  and image routes: with \<open>i\<close> the masked index, a read returns the \<open>span\<close> cells from
  \<open>align i\<close> on, lowest cell in the lowest byte, and a battery-RAM write replaces
  exactly these cells (an image write changes nothing). The EEPROM route and the
  open bus ignore address and width. No error is reported. On the FlashROM route
  the address reaches the engine as it was issued. So on every route but the
  FlashROM route a read or write at an unaligned address has the effect of the same
  access at the realigned address; here the EEPROM window is taken not to test the
  low two address bits, which holds after every load (lemma \<open>load_eeprom_window\<close>).
\<close>

theorem realignment:
  "(align x Byte = x \<and> align x Half = x AND NOT 1 \<and> align x Word = x AND NOT 3)
   \<and> (classify c addr = BatteryRam i \<longrightarrow>
        i = addr AND ram_mask (ram c)
        \<and> snd (Cartridge_read E fetch c addr sz) = c
        \<and> (\<forall>j < span sz. byte_of (fst (Cartridge_read E fetch c addr sz)) j
                            = cells (ram_data (ram c)) (unat (align i sz) + j))
        \<and> drop_bit (8 * span sz) (fst (Cartridge_read E fetch c addr sz)) = 0
        \<and> Cartridge_write E c addr sz word
            = store_ram c (store_bytes (cells (ram_data (ram c))) (unat (align i sz)) (span sz) word))
   \<and> (classify c addr = Image i \<longrightarrow>
        i = addr AND 0x01ffffff
        \<and> snd (Cartridge_read E fetch c addr sz) = c
        \<and> (\<forall>j < span sz. byte_of (fst (Cartridge_read E fetch c addr sz)) j
                            = cells (rom_data (rom c)) (unat (align i sz) + j))
        \<and> drop_bit (8 * span sz) (fst (Cartridge_read E fetch c addr sz)) = 0
        \<and> Cartridge_write E c addr sz word = c)
   \<and> (classify c addr = Eeprom \<longrightarrow>
        Cartridge_read E fetch c addr sz
          = (fst (EEPROM_read E (eeprom c)), c\<lparr>eeprom := snd (EEPROM_read E (eeprom c))\<rparr>)
        \<and> Cartridge_write E c addr sz word
            = c\<lparr>eeprom := EEPROM_write E (eeprom c) (word AND 1)\<rparr>)
   \<and> (classify c addr = OpenBus \<longrightarrow>
        Cartridge_read E fetch c addr sz = (fetch, c) \<and> Cartridge_write E c addr sz word = c)
   \<and> (classify c addr = FlashRom a \<longrightarrow>
        a = addr
        \<and> Cartridge_read E fetch c addr sz
            = (fst (FlashROM_read E (flashrom c) addr),
               c\<lparr>flashrom := snd (FlashROM_read E (flashrom c) addr)\<rparr>)
        \<and> Cartridge_write E c addr sz word
            = c\<lparr>flashrom := FlashROM_write E (flashrom c) addr word\<rparr>)
   \<and> ((has_eeprom c \<longrightarrow> eeprom_mask (eeprom c) AND 3 = 0)
        \<and> classify c addr \<noteq> FlashRom addr \<longrightarrow>
        Cartridge_read E fetch c (align addr sz) sz = Cartridge_read E fetch c addr sz
        \<and> Cartridge_write E c (align addr sz) sz word = Cartridge_write E c addr sz word)"
proof -
  have ram: "i = addr AND ram_mask (ram c)
        \<and> snd (Cartridge_read E fetch c addr sz) = c
        \<and> (\<forall>j < span sz. byte_of (fst (Cartridge_read E fetch c addr sz)) j
                            = cells (ram_data (ram c)) (unat (align i sz) + j))
        \<and> drop_bit (8 * span sz) (fst (Cartridge_read E fetch c addr sz)) = 0
        \<and> Cartridge_write E c addr sz word
            = store_ram c (store_bytes (cells (ram_data (ram c))) (unat (align i sz)) (span sz) word)"
    if r: "classify c addr = BatteryRam i"
    using ram_route(1) [OF r] ram_route(3) [OF r, of E sz word]
    by (simp add: ram_route(2) [OF r] read_data_cells read_data_high)
  have image: "i = addr AND 0x01ffffff
        \<and> snd (Cartridge_read E fetch c addr sz) = c
        \<and> (\<forall>j < span sz. byte_of (fst (Cartridge_read E fetch c addr sz)) j
                            = cells (rom_data (rom c)) (unat (align i sz) + j))
        \<and> drop_bit (8 * span sz) (fst (Cartridge_read E fetch c addr sz)) = 0
        \<and> Cartridge_write E c addr sz word = c"
    if r: "classify c addr = Image i"
    using image_route(1) [OF r] image_route(3) [OF r, of E sz word]
    by (simp add: image_route(2) [OF r] read_data_cells read_data_high)
  have same: "Cartridge_read E fetch c (align addr sz) sz = Cartridge_read E fetch c addr sz
        \<and> Cartridge_write E c (align addr sz) sz word = Cartridge_write E c addr sz word"
    if w: "has_eeprom c \<longrightarrow> eeprom_mask (eeprom c) AND 3 = 0"
      and n: "classify c addr \<noteq> FlashRom addr"
  proof -
    have nf: "classify c addr \<noteq> FlashRom a" for a
      using n by (auto simp: classify_def split: if_splits)
    have "Cartridge_read E fetch c (align addr sz) sz = Cartridge_read E fetch c addr sz"
      unfolding read_classify classify_align [OF w]
      using nf by (cases "classify c addr")
        (auto simp: read_from_simps classify_def read_data_align split: if_splits)
    moreover have "Cartridge_write E c (align addr sz) sz word = Cartridge_write E c addr sz word"
      unfolding write_classify classify_align [OF w]
      using nf by (cases "classify c addr")
        (auto simp: write_to_simps classify_def write_data_align split: if_splits)
    ultimately show ?thesis by simp
  qed
  show ?thesis
    using ram image same other_routes(1) [of c addr E fetch sz word]
      other_routes(2) [of c addr E fetch sz word] other_routes(3) [of c addr a E fetch sz word]
    by (simp only: align_cases) blast
qed

theorem realignment_witness:
  "\<not> has_eeprom cart_sram_32K
   \<and> classify cart_sram_32K 0x0E001003 = BatteryRam 0x1003
   \<and> align 0x0E001003 Word = 0x0E001000
   \<and> Cartridge_read idle_chips 0 cart_sram_32K 0x0E001000 Word
       = Cartridge_read idle_chips 0 cart_sram_32K 0x0E001003 Word
   \<and> Cartridge_write idle_chips cart_sram_32K 0x0E001000 Word 0x11223344
       = Cartridge_write idle_chips cart_sram_32K 0x0E001003 Word 0x11223344
   \<and> cells (ram_data (ram (Cartridge_write idle_chips cart_sram_32K 0x0E001003 Word 0x11223344)))
       = (cells (ram_data (ram cart_sram_32K)))
           (0x1000 := 0x44, 0x1001 := 0x33, 0x1002 := 0x22, 0x1003 := 0x11)
   \<and> Cartridge_read idle_chips 0 cart_sram_32K 0x0E001003 Word = (0xFFFFFFFF, cart_sram_32K)
   \<and> has_eeprom (Cartridge_load no_files eeprom_512 fresh)
   \<and> eeprom_mask (eeprom (Cartridge_load no_files eeprom_512 fresh)) AND 3 = 0
   \<and> align 0x0D000001 Half = 0x0D000000
   \<and> Cartridge_read idle_chips 0 (Cartridge_load no_files eeprom_512 fresh) 0x0D000000 Half
       = Cartridge_read idle_chips 0 (Cartridge_load no_files eeprom_512 fresh) 0x0D000001 Half"
proof -
  let ?e = "Cartridge_load no_files eeprom_512 fresh"
  have e: "has_eeprom cart_sram_32K \<longrightarrow> eeprom_mask (eeprom cart_sram_32K) AND 3 = 0"
    by (simp add: cart_sram_32K_flags)
  have c: "classify cart_sram_32K 0x0E001003 = BatteryRam 0x1003"
    by (simp add: classify_def cart_sram_32K_flags cart_sram_32K_ram)
  have a: "align 0x0E001003 Word = 0x0E001000" "align 0x0D000001 Half = 0x0D000000"
    "align 0x1003 Word = 0x1000"
    by (simp_all add: align_def)
  have m: "eeprom_mask (eeprom ?e) = 0x0f000000" "eeprom_test (eeprom ?e) = 0x0d000000"
    by (simp_all add: load_eeprom load_rom_fst eeprom_512_def rom_8M_def)
  have w: "has_eeprom ?e \<longrightarrow> eeprom_mask (eeprom ?e) AND 3 = 0"
    by (rule load_eeprom_window)
  have c': "classify ?e 0x0D000001 = Eeprom"
    by (simp add: classify_def example_flags m)
  have s: "store_bytes d 0x1000 4 0x11223344
             = d(0x1000 := 0x44, 0x1001 := 0x33, 0x1002 := 0x22, 0x1003 := 0x11)" for d
    by (auto simp: store_bytes_def byte_of_def fun_eq_iff)
  have r: "Cartridge_read_data (\<lambda>i. if i < 32768 then 0xff else 0) 0x1003 Word = 0xFFFFFFFF"
    by (simp add: read_data_Word)
  have nf: "classify cart_sram_32K 0x0E001003 \<noteq> FlashRom 0x0E001003"
    unfolding c by simp
  have nf': "classify ?e 0x0D000001 \<noteq> FlashRom 0x0D000001"
    unfolding c' by simp
  note T = realignment [of 0 cart_sram_32K "0x0E001003" "0x1003" idle_chips 0 Word "0x11223344"]
  have t1: "Cartridge_write idle_chips cart_sram_32K 0x0E001003 Word 0x11223344
              = store_ram cart_sram_32K
                  (store_bytes (cells (ram_data (ram cart_sram_32K))) (unat (align 0x1003 Word))
                     (span Word) 0x11223344)"
    using T c by blast
  have t2: "Cartridge_read idle_chips 0 cart_sram_32K (align 0x0E001003 Word) Word
              = Cartridge_read idle_chips 0 cart_sram_32K 0x0E001003 Word"
    using T e nf by blast
  have t3: "Cartridge_write idle_chips cart_sram_32K (align 0x0E001003 Word) Word 0x11223344
              = Cartridge_write idle_chips cart_sram_32K 0x0E001003 Word 0x11223344"
    using T e nf by blast
  have t4: "Cartridge_read idle_chips 0 ?e (align 0x0D000001 Half) Half
              = Cartridge_read idle_chips 0 ?e 0x0D000001 Half"
    using realignment [of 0 ?e "0x0D000001" 0 idle_chips 0 Half 0] w nf' by blast
  have rd: "Cartridge_read idle_chips 0 cart_sram_32K 0x0E001003 Word = (0xFFFFFFFF, cart_sram_32K)"
    by (simp add: ram_route(2) [OF c] cart_sram_32K_ram r)
  have wr: "cells (ram_data (ram (Cartridge_write idle_chips cart_sram_32K 0x0E001003 Word 0x11223344)))
       = (cells (ram_data (ram cart_sram_32K)))
           (0x1000 := 0x44, 0x1001 := 0x33, 0x1002 := 0x22, 0x1003 := 0x11)"
    unfolding t1 by (simp add: store_ram_def a span_def s)
  show ?thesis
    unfolding t2 [unfolded a] t3 [unfolded a] t4 [unfolded a] rd wr c a m
    by (simp add: cart_sram_32K_flags example_flags)
qed

section \<open>The index into the battery RAM\<close>

lemma exp_pos32: "k < 32 \<Longrightarrow> 0 < (2 :: uint32) ^ k"
  by (simp add: word_gt_0 exp_eq_zero_iff)

lemma unat_exp32: "k < 32 \<Longrightarrow> unat ((2 :: uint32) ^ k) = 2 ^ k"
proof -
  assume "k < 32"
  then have "uint ((2 :: uint32) ^ k) = 2 ^ k" by (intro uint_2p exp_pos32)
  then have "nat (uint ((2 :: uint32) ^ k)) = 2 ^ k" by (simp add: nat_power_eq)
  then show ?thesis by (simp only: unat_eq_nat_uint)
qed

lemma mask_is_mod:
  fixes addr :: uint32
  assumes "k < 32"
  shows "addr AND (2 ^ k - 1) = addr mod 2 ^ k"
    and "unat (addr AND (2 ^ k - 1)) = unat addr mod 2 ^ k"
proof -
  show m: "addr AND (2 ^ k - 1) = addr mod 2 ^ k"
    using word_mod_2p_is_mask [OF exp_pos32 [OF assms], of addr] by (simp add: mask_eq_decr_exp)
  show "unat (addr AND (2 ^ k - 1)) = unat addr mod 2 ^ k"
    unfolding m by (simp add: unat_mod unat_exp32 assms)
qed

lemma load_ram_mask:
  "has_sram (Cartridge_load h doc c) \<longrightarrow>
     ram_mask (ram (Cartridge_load h doc c)) = ram_size (ram (Cartridge_load h doc c)) - 1"
  by (simp add: load_has_sram load_ram split: option.splits)

lemma bus_keeps_ram_configuration:
  "has_sram (Cartridge_write E c addr sz word) = has_sram c"
  "ram_size (ram (Cartridge_write E c addr sz word)) = ram_size (ram c)"
  "ram_mask (ram (Cartridge_write E c addr sz word)) = ram_mask (ram c)"
  "extent (ram_data (ram (Cartridge_write E c addr sz word))) = extent (ram_data (ram c))"
  "has_sram (snd (Cartridge_read E fetch c addr sz)) = has_sram c"
  "ram (snd (Cartridge_read E fetch c addr sz)) = ram c"
  "rom (snd (Cartridge_read E fetch c addr sz)) = rom c"
  "rom (Cartridge_write E c addr sz word) = rom c"
  by (cases "classify c addr";
      simp add: read_classify write_classify read_from_simps write_to_simps store_ram_def)+

text \<open>
  Claim C5. For every bus access routed to battery RAM, the index into the RAM
  buffer is the bus address reduced by the mask, \<open>addr AND mask\<close>: a read returns
  the cells from that index on (from its alignment for Half and Word), and a write
  stores there and nowhere else. Load sets \<open>mask = size - 1\<close>, and a bus access
  changes neither. With \<open>mask = size - 1\<close> and the size a power of two, the index
  is the address modulo the size, and so below the size.
\<close>

theorem battery_ram_index:
  "(has_sram (Cartridge_load h doc c0) \<longrightarrow>
      ram_mask (ram (Cartridge_load h doc c0)) = ram_size (ram (Cartridge_load h doc c0)) - 1)
   \<and> (has_sram c \<and> addr AND 0x0e000000 = 0x0e000000 \<longrightarrow>
        classify c addr = BatteryRam (addr AND ram_mask (ram c))
        \<and> Cartridge_read E fetch c addr sz
            = (Cartridge_read_data (cells (ram_data (ram c))) (addr AND ram_mask (ram c)) sz, c)
        \<and> (\<forall>j < span sz. byte_of (fst (Cartridge_read E fetch c addr sz)) j
              = cells (ram_data (ram c)) (unat (align (addr AND ram_mask (ram c)) sz) + j))
        \<and> Cartridge_write E c addr sz word
            = store_ram c (Cartridge_write_data (cells (ram_data (ram c)))
                             (addr AND ram_mask (ram c)) sz word)
        \<and> cells (ram_data (ram (Cartridge_write E c addr sz word)))
            = store_bytes (cells (ram_data (ram c)))
                (unat (align (addr AND ram_mask (ram c)) sz)) (span sz) word
        \<and> ram_mask (ram (Cartridge_write E c addr sz word)) = ram_mask (ram c)
        \<and> ram_size (ram (Cartridge_write E c addr sz word)) = ram_size (ram c))
   \<and> (ram_mask (ram c) = ram_size (ram c) - 1 \<and> ram_size (ram c) = 2 ^ k \<and> k < 32 \<longrightarrow>
        addr AND ram_mask (ram c) = addr mod ram_size (ram c)
        \<and> unat (addr AND ram_mask (ram c)) = unat addr mod unat (ram_size (ram c))
        \<and> unat (addr AND ram_mask (ram c)) < unat (ram_size (ram c))
        \<and> (has_sram c \<and> addr AND 0x0e000000 = 0x0e000000 \<longrightarrow>
             Cartridge_read E fetch c addr sz
               = (Cartridge_read_data (cells (ram_data (ram c))) (addr mod ram_size (ram c)) sz, c)
             \<and> Cartridge_write E c addr sz word
                 = store_ram c (Cartridge_write_data (cells (ram_data (ram c)))
                                  (addr mod ram_size (ram c)) sz word)))"
proof -
  let ?i = "addr AND ram_mask (ram c)"
  have routed: "classify c addr = BatteryRam ?i
        \<and> Cartridge_read E fetch c addr sz
            = (Cartridge_read_data (cells (ram_data (ram c))) ?i sz, c)
        \<and> (\<forall>j < span sz. byte_of (fst (Cartridge_read E fetch c addr sz)) j
              = cells (ram_data (ram c)) (unat (align ?i sz) + j))
        \<and> Cartridge_write E c addr sz word
            = store_ram c (Cartridge_write_data (cells (ram_data (ram c))) ?i sz word)
        \<and> cells (ram_data (ram (Cartridge_write E c addr sz word)))
            = store_bytes (cells (ram_data (ram c))) (unat (align ?i sz)) (span sz) word
        \<and> ram_mask (ram (Cartridge_write E c addr sz word)) = ram_mask (ram c)
        \<and> ram_size (ram (Cartridge_write E c addr sz word)) = ram_size (ram c)"
    if h: "has_sram c" "addr AND 0x0e000000 = 0x0e000000"
  proof -
    have r: "classify c addr = BatteryRam ?i"
      using h by (simp add: classify_def)
    have w: "Cartridge_write E c addr sz word
               = store_ram c (Cartridge_write_data (cells (ram_data (ram c))) ?i sz word)"
      unfolding write_classify r write_to_simps by (rule refl)
    show ?thesis
      using r w ram_route(3) [OF r, of E sz word]
      by (simp add: ram_route(2) [OF r] read_data_cells write_data_cells store_ram_def)
  qed
  have modulo: "?i = addr mod ram_size (ram c)
        \<and> unat ?i = unat addr mod unat (ram_size (ram c))
        \<and> unat ?i < unat (ram_size (ram c))"
    if m: "ram_mask (ram c) = ram_size (ram c) - 1" "ram_size (ram c) = 2 ^ k" and k: "k < 32"
  proof -
    have e: "?i = addr mod ram_size (ram c)"
      using mask_is_mod(1) [OF k, of addr] by (simp add: m)
    have p: "0 < unat (ram_size (ram c))"
      by (simp add: m(2) unat_exp32 [OF k])
    have u: "unat ?i = unat addr mod unat (ram_size (ram c))"
      unfolding e by (simp add: unat_mod)
    show ?thesis using e u p by simp
  qed
  show ?thesis
    using load_ram_mask [of h doc c0] routed modulo by metis
qed

theorem battery_ram_index_witness:
  "has_sram cart_sram_32K \<and> (0x0E009234 :: uint32) AND 0x0e000000 = 0x0e000000
   \<and> ram_size (ram cart_sram_32K) = 2 ^ 15
   \<and> ram_mask (ram cart_sram_32K) = ram_size (ram cart_sram_32K) - 1
   \<and> classify cart_sram_32K 0x0E009234 = BatteryRam 0x1234
   \<and> 0x0E009234 AND ram_mask (ram cart_sram_32K) = 0x1234
   \<and> 0x0E009234 mod ram_size (ram cart_sram_32K) = 0x1234
   \<and> Cartridge_read idle_chips 0 cart_sram_32K 0x0E009234 Byte = (0xff, cart_sram_32K)
   \<and> cells (ram_data (ram (Cartridge_write idle_chips cart_sram_32K 0x0E009234 Byte 0x42)))
       = (cells (ram_data (ram cart_sram_32K)))(0x1234 := 0x42)"
proof -
  have s: "ram_size (ram cart_sram_32K) = 2 ^ 15" by (simp add: cart_sram_32K_ram)
  have m: "ram_mask (ram cart_sram_32K) = ram_size (ram cart_sram_32K) - 1"
    by (simp add: cart_sram_32K_ram)
  have a: "(0x0E009234 :: uint32) AND 0x0e000000 = 0x0e000000" by simp
  have k: "(15 :: nat) < 32" by simp
  have i: "0x0E009234 AND ram_mask (ram cart_sram_32K) = 0x1234"
    by (simp add: cart_sram_32K_ram)
  note T = battery_ram_index [of no_files sram_32K fresh cart_sram_32K "0x0E009234"
      idle_chips 0 Byte "0x42" 15]
  have t1: "classify cart_sram_32K 0x0E009234
              = BatteryRam (0x0E009234 AND ram_mask (ram cart_sram_32K))"
    and t2: "Cartridge_read idle_chips 0 cart_sram_32K 0x0E009234 Byte
              = (Cartridge_read_data (cells (ram_data (ram cart_sram_32K)))
                   (0x0E009234 AND ram_mask (ram cart_sram_32K)) Byte, cart_sram_32K)"
    and t3: "cells (ram_data (ram (Cartridge_write idle_chips cart_sram_32K 0x0E009234 Byte 0x42)))
              = store_bytes (cells (ram_data (ram cart_sram_32K)))
                  (unat (align (0x0E009234 AND ram_mask (ram cart_sram_32K)) Byte)) (span Byte) 0x42"
    using T cart_sram_32K_flags(1) a by blast+
  have t4: "0x0E009234 AND ram_mask (ram cart_sram_32K) = 0x0E009234 mod ram_size (ram cart_sram_32K)"
    using T m s k by blast
  have b: "store_bytes d 0x1234 (Suc 0) 0x42 = d(0x1234 := 0x42)" for d
    by (auto simp: store_bytes_def byte_of_def fun_eq_iff)
  have r: "Cartridge_read_data (\<lambda>i. if i < 32768 then 0xff else 0) 0x1234 Byte = 0xff"
    by (simp add: read_data_Byte)
  show ?thesis
    unfolding t2 t3 t1 t4 [symmetric] i
    by (simp add: cart_sram_32K_flags cart_sram_32K_ram r b align_def span_def)
qed

section \<open>Accesses and the allocated buffers\<close>

text \<open>
  The allocated capacity of a buffer is its \<open>extent\<close>, set by the constructor and
  changed by nothing. An access stays within a buffer when the cells it touches,
  the \<open>span\<close> cells from the aligned offset on, lie below the extent.
\<close>

lemma write_data_footprint:
  assumes "i < unat (align a sz) \<or> unat (align a sz) + span sz \<le> i"
  shows "Cartridge_write_data d a sz word i = d i"
proof (cases sz)
  case Byte
  then show ?thesis using assms by (auto simp: write_data_Byte align_def span_def)
next
  case Half
  then show ?thesis using assms
    by (auto simp: write_data_Half align_def span_def)
next
  case Word
  then show ?thesis using assms
    by (auto simp: write_data_Word align_def span_def)
qed

lemma aligned_span_fits:
  fixes i :: uint32
  assumes "unat i < 2 ^ k" and "2 \<le> k"
  shows "unat (align i sz) + span sz \<le> 2 ^ k"
proof -
  obtain m where k: "k = m + 2" using assms(2) by (metis add.commute le_Suc_ex)
  have p: "(2::nat) ^ k = 4 * 2 ^ m" by (simp add: k)
  have "unat i div 4 < 2 ^ m" using assms(1) unfolding p by simp
  then have w: "4 * (unat i div 4) + 4 \<le> 2 ^ k" unfolding p by simp
  have "unat i div 2 < 2 * 2 ^ m" using assms(1) unfolding p by simp
  then have h: "2 * (unat i div 2) + 2 \<le> 2 ^ k" unfolding p by simp
  have b: "unat i + 1 \<le> 2 ^ k" using assms(1) by simp
  show ?thesis using w h b by (cases sz) (simp_all add: unat_align span_def)
qed

lemma image_index_bound: "unat ((addr :: uint32) AND 0x01ffffff) < 2 ^ 25"
proof -
  have "addr AND 0x01ffffff \<le> 0x01ffffff" by (rule word_and_le1)
  then show ?thesis by (simp add: word_le_nat_alt)
qed

lemma reads_below:
  assumes "unat (align i sz) + span sz - 1 < n" and "\<And>j. j < n \<Longrightarrow> d j = d' j"
  shows "Cartridge_read_data d i sz = Cartridge_read_data d' i sz"
  using assms span_pos [of sz] by (intro read_data_footprint) simp

lemma writes_below:
  assumes "unat (align i sz) + span sz - 1 < n" and "n \<le> j"
  shows "Cartridge_write_data d i sz word j = d j"
  using assms span_pos [of sz] by (intro write_data_footprint) arith

lemma battery_ram_within:
  assumes "classify c addr = BatteryRam i"
    and "ram_mask (ram c) = ram_size (ram c) - 1"
    and "ram_size (ram c) = 2 ^ k" and "2 \<le> k" and "k < 32"
  shows "unat (align i sz) + span sz - 1 < unat (ram_size (ram c))"
proof -
  from assms(1) have i: "i = addr AND (2 ^ k - 1)"
    by (auto simp: classify_def assms(2,3) split: if_splits)
  have "unat i < 2 ^ k" unfolding i mask_is_mod(2) [OF assms(5)] by simp
  then have "unat (align i sz) + span sz \<le> 2 ^ k" using assms(4) by (rule aligned_span_fits)
  then show ?thesis using span_pos [of sz] by (simp add: assms(3) unat_exp32 [OF assms(5)])
qed

lemma image_within:
  assumes "classify c addr = Image i"
  shows "unat (align i sz) + span sz - 1 < 32 * 1024 * 1024"
proof -
  from assms have i: "i = addr AND 0x01ffffff"
    by (auto simp: classify_def split: if_splits)
  have "unat i < 2 ^ 25" unfolding i by (rule image_index_bound)
  then have "unat (align i sz) + span sz \<le> 2 ^ 25" by (rule aligned_span_fits) simp
  then show ?thesis using span_pos [of sz] by simp
qed

lemma extents_kept:
  "extent (rom_data (rom (Cartridge_load h doc c))) = extent (rom_data (rom c))"
  "extent (ram_data (ram (Cartridge_load h doc c))) = extent (ram_data (ram c))"
  "rom_size (rom (Cartridge_load h doc c)) = rom_size (rom c)"
  "extent (rom_data (rom (Cartridge_write E c addr sz word))) = extent (rom_data (rom c))"
  "extent (rom_data (rom (snd (Cartridge_read E fetch c addr sz)))) = extent (rom_data (rom c))"
  "extent (ram_data (ram (snd (Cartridge_read E fetch c addr sz)))) = extent (ram_data (ram c))"
  "extent (rom_data (rom (Cartridge_unload c))) = extent (rom_data (rom c))"
  "extent (ram_data (ram (Cartridge_unload c))) = extent (ram_data (ram c))"
  by (simp_all add: load_rom load_ram bus_keeps_ram_configuration Cartridge_unload_def
      split: option.splits)

text \<open>
  Claim C10 as stated fails. A battery-RAM size of 64 KiB is a power of two of at
  least 4 bytes, yet the buffer allocated by the constructor has 32768 cells: a Byte
  write at \<open>0x0E008000\<close> is routed to battery RAM at index \<open>0x8000\<close> and stores into
  cell 32768, the first cell past the allocation. (The fill loop of load has run
  past the allocation before, for the same reason: load takes the size from the
  manifest and compares it with nothing.)
\<close>

theorem access_within_allocation_counterexample:
  "ram_size (ram cart_sram_64K) = 2 ^ 16
   \<and> ram_mask (ram cart_sram_64K) = ram_size (ram cart_sram_64K) - 1
   \<and> extent (ram_data (ram cart_sram_64K)) = 32768
   \<and> classify cart_sram_64K 0x0E008000 = BatteryRam 0x8000
   \<and> unat (align 0x8000 Byte) + span Byte - 1 = 32768
   \<and> cells (ram_data (ram cart_sram_64K)) 32768 = 0xFF
   \<and> cells (ram_data (ram (Cartridge_write idle_chips cart_sram_64K 0x0E008000 Byte 0x42))) 32768 = 0x42"
proof -
  have c: "classify cart_sram_64K 0x0E008000 = BatteryRam 0x8000"
    by (simp add: classify_def cart_sram_64K_flags cart_sram_64K_ram)
  have w: "cells (ram_data (ram (Cartridge_write idle_chips cart_sram_64K 0x0E008000 Byte 0x42))) =
             (\<lambda>i. if i < 65536 then 0xff else 0)(0x8000 := 0x42)"
    by (simp add: write_classify c write_to_simps store_ram_def write_data_Byte cart_sram_64K_ram)
  show ?thesis unfolding w c by (simp add: cart_sram_64K_ram align_def span_def)
qed

text \<open>
  Claim C10, amended. For every bus access routed to battery RAM, provided the
  configured size is a power of two of at least 4 bytes and the mask is the size
  less one: the cells that \<open>read\<close> returns and the cells that \<open>write\<close> replaces are
  the \<open>span\<close> cells from the aligned masked index on, the highest of them
  (\<open>index + width - 1\<close>) is below the configured \<open>ram.size\<close>, a read depends on no
  other cell and a write changes no other cell. They lie within the allocated
  buffer provided moreover the configured size is at most the allocated capacity
  (32 KiB from the constructor): then a read depends on no cell past the allocation
  and a write changes none. For every access routed to the image, the cells that
  \<open>read\<close> returns are the \<open>span\<close> cells from the aligned masked index on, the
  highest of them is below the 32 MiB that the constructor allocates, and \<open>write\<close>
  changes nothing.
\<close>

theorem access_within_allocation:
  "(classify c addr = BatteryRam i \<and> ram_mask (ram c) = ram_size (ram c) - 1
      \<and> ram_size (ram c) = 2 ^ k \<and> 2 \<le> k \<and> k < 32 \<longrightarrow>
        i = addr AND ram_mask (ram c)
        \<and> unat (align i sz) + span sz - 1 < unat (ram_size (ram c))
        \<and> (\<forall>j < span sz. byte_of (fst (Cartridge_read E fetch c addr sz)) j
              = cells (ram_data (ram c)) (unat (align i sz) + j))
        \<and> (\<forall>d. (\<forall>j < span sz. d (unat (align i sz) + j)
                                 = cells (ram_data (ram c)) (unat (align i sz) + j)) \<longrightarrow>
               fst (Cartridge_read E fetch (store_ram c d) addr sz)
                 = fst (Cartridge_read E fetch c addr sz))
        \<and> (\<forall>m. cells (ram_data (ram (Cartridge_write E c addr sz word))) m
               = (if unat (align i sz) \<le> m \<and> m < unat (align i sz) + span sz
                  then byte_of word (m - unat (align i sz))
                  else cells (ram_data (ram c)) m))
        \<and> extent (ram_data (ram (Cartridge_write E c addr sz word))) = extent (ram_data (ram c))
        \<and> (unat (ram_size (ram c)) \<le> extent (ram_data (ram c)) \<longrightarrow>
             unat (align i sz) + span sz - 1 < extent (ram_data (ram c))
             \<and> (\<forall>d. (\<forall>j < extent (ram_data (ram c)). d j = cells (ram_data (ram c)) j) \<longrightarrow>
                   fst (Cartridge_read E fetch (store_ram c d) addr sz)
                     = fst (Cartridge_read E fetch c addr sz))
             \<and> (\<forall>j \<ge> extent (ram_data (ram c)).
                   cells (ram_data (ram (Cartridge_write E c addr sz word))) j
                     = cells (ram_data (ram c)) j)))
   \<and> (classify c addr = Image i \<and> extent (rom_data (rom c)) = 32 * 1024 * 1024 \<longrightarrow>
        i = addr AND 0x01ffffff
        \<and> unat (align i sz) + span sz - 1 < extent (rom_data (rom c))
        \<and> (\<forall>j < span sz. byte_of (fst (Cartridge_read E fetch c addr sz)) j
              = cells (rom_data (rom c)) (unat (align i sz) + j))
        \<and> (\<forall>d. (\<forall>j < extent (rom_data (rom c)). d j = cells (rom_data (rom c)) j) \<longrightarrow>
              fst (Cartridge_read E fetch (store_rom c d) addr sz)
                = fst (Cartridge_read E fetch c addr sz))
        \<and> Cartridge_write E c addr sz word = c)
   \<and> extent (rom_data (rom (Cartridge_load h doc (Cartridge_new garbage x0 y0)))) = 32 * 1024 * 1024
   \<and> extent (ram_data (ram (Cartridge_load h doc (Cartridge_new garbage x0 y0)))) = 32 * 1024"
proof -
  let ?b = "unat (align i sz)"
  let ?ram = "cells (ram_data (ram c))"
  let ?rom = "cells (rom_data (rom c))"
  have ram: "i = addr AND ram_mask (ram c)
        \<and> ?b + span sz - 1 < unat (ram_size (ram c))
        \<and> (\<forall>j < span sz. byte_of (fst (Cartridge_read E fetch c addr sz)) j = ?ram (?b + j))
        \<and> (\<forall>d. (\<forall>j < span sz. d (?b + j) = ?ram (?b + j)) \<longrightarrow>
               fst (Cartridge_read E fetch (store_ram c d) addr sz)
                 = fst (Cartridge_read E fetch c addr sz))
        \<and> (\<forall>m. cells (ram_data (ram (Cartridge_write E c addr sz word))) m
               = (if ?b \<le> m \<and> m < ?b + span sz then byte_of word (m - ?b) else ?ram m))
        \<and> extent (ram_data (ram (Cartridge_write E c addr sz word))) = extent (ram_data (ram c))
        \<and> (unat (ram_size (ram c)) \<le> extent (ram_data (ram c)) \<longrightarrow>
             ?b + span sz - 1 < extent (ram_data (ram c))
             \<and> (\<forall>d. (\<forall>j < extent (ram_data (ram c)). d j = ?ram j) \<longrightarrow>
                   fst (Cartridge_read E fetch (store_ram c d) addr sz)
                     = fst (Cartridge_read E fetch c addr sz))
             \<and> (\<forall>j \<ge> extent (ram_data (ram c)).
                   cells (ram_data (ram (Cartridge_write E c addr sz word))) j = ?ram j))"
    if r: "classify c addr = BatteryRam i" and m: "ram_mask (ram c) = ram_size (ram c) - 1"
      and p: "ram_size (ram c) = 2 ^ k" and k: "2 \<le> k" "k < 32"
  proof -
    have r': "classify (store_ram c d) addr = BatteryRam i" for d
      by (simp only: classify_store r)
    have bound: "?b + span sz - 1 < unat (ram_size (ram c))"
      using r m p k by (rule battery_ram_within)
    have rd: "fst (Cartridge_read E fetch c addr sz) = Cartridge_read_data ?ram i sz"
      by (simp add: ram_route(2) [OF r])
    have rd': "fst (Cartridge_read E fetch (store_ram c d) addr sz) = Cartridge_read_data d i sz"
      for d unfolding ram_route(2) [OF r'] by (simp add: store_ram_def)
    have wr: "cells (ram_data (ram (Cartridge_write E c addr sz word)))
                = store_bytes ?ram ?b (span sz) word"
      by (simp add: ram_route(3) [OF r] store_ram_def)
    have bytes: "\<forall>j < span sz. byte_of (fst (Cartridge_read E fetch c addr sz)) j = ?ram (?b + j)"
      unfolding rd by (simp add: read_data_cells)
    have local: "fst (Cartridge_read E fetch (store_ram c d) addr sz)
                   = fst (Cartridge_read E fetch c addr sz)"
      if "\<forall>j < span sz. d (?b + j) = ?ram (?b + j)" for d
      unfolding rd rd' using that by (intro read_data_footprint) simp
    have cells: "cells (ram_data (ram (Cartridge_write E c addr sz word))) n
               = (if ?b \<le> n \<and> n < ?b + span sz then byte_of word (n - ?b) else ?ram n)" for n
      unfolding wr by (simp add: store_bytes_def)
    have ext: "extent (ram_data (ram (Cartridge_write E c addr sz word)))
                 = extent (ram_data (ram c))"
      by (rule bus_keeps_ram_configuration)
    have within: "?b + span sz - 1 < extent (ram_data (ram c))
             \<and> (\<forall>d. (\<forall>j < extent (ram_data (ram c)). d j = ?ram j) \<longrightarrow>
                   fst (Cartridge_read E fetch (store_ram c d) addr sz)
                     = fst (Cartridge_read E fetch c addr sz))
             \<and> (\<forall>j \<ge> extent (ram_data (ram c)).
                   cells (ram_data (ram (Cartridge_write E c addr sz word))) j = ?ram j)"
      if e: "unat (ram_size (ram c)) \<le> extent (ram_data (ram c))"
    proof -
      have b: "?b + span sz - 1 < extent (ram_data (ram c))" using bound e by simp
      have "fst (Cartridge_read E fetch (store_ram c d) addr sz)
              = fst (Cartridge_read E fetch c addr sz)"
        if "\<forall>j < extent (ram_data (ram c)). d j = ?ram j" for d
        unfolding rd rd' using reads_below [OF b] that by blast
      moreover have "cells (ram_data (ram (Cartridge_write E c addr sz word))) j = ?ram j"
        if "extent (ram_data (ram c)) \<le> j" for j
        unfolding wr write_data_cells [symmetric] using writes_below [OF b that] .
      ultimately show ?thesis using b by blast
    qed
    show ?thesis
      using ram_route(1) [OF r] bound bytes local cells ext within by blast
  qed
  have image: "i = addr AND 0x01ffffff
        \<and> ?b + span sz - 1 < extent (rom_data (rom c))
        \<and> (\<forall>j < span sz. byte_of (fst (Cartridge_read E fetch c addr sz)) j = ?rom (?b + j))
        \<and> (\<forall>d. (\<forall>j < extent (rom_data (rom c)). d j = ?rom j) \<longrightarrow>
              fst (Cartridge_read E fetch (store_rom c d) addr sz)
                = fst (Cartridge_read E fetch c addr sz))
        \<and> Cartridge_write E c addr sz word = c"
    if r: "classify c addr = Image i" and e: "extent (rom_data (rom c)) = 32 * 1024 * 1024"
  proof -
    have r': "classify (store_rom c d) addr = Image i" for d
      by (simp only: classify_store r)
    have b: "?b + span sz - 1 < extent (rom_data (rom c))"
      using image_within [OF r, of sz] e by simp
    have rd: "fst (Cartridge_read E fetch c addr sz) = Cartridge_read_data ?rom i sz"
      by (simp add: image_route(2) [OF r])
    have rd': "fst (Cartridge_read E fetch (store_rom c d) addr sz) = Cartridge_read_data d i sz"
      for d unfolding image_route(2) [OF r'] by (simp add: store_rom_def)
    have bytes: "\<forall>j < span sz. byte_of (fst (Cartridge_read E fetch c addr sz)) j = ?rom (?b + j)"
      unfolding rd by (simp add: read_data_cells)
    have "fst (Cartridge_read E fetch (store_rom c d) addr sz)
            = fst (Cartridge_read E fetch c addr sz)"
      if "\<forall>j < extent (rom_data (rom c)). d j = ?rom j" for d
      unfolding rd rd' using reads_below [OF b] that by blast
    then show ?thesis
      using image_route(1) [OF r] b bytes image_route(3) [OF r, of E sz word] by blast
  qed
  have new: "extent (rom_data (rom (Cartridge_load h doc (Cartridge_new garbage x0 y0))))
               = 32 * 1024 * 1024"
    "extent (ram_data (ram (Cartridge_load h doc (Cartridge_new garbage x0 y0)))) = 32 * 1024"
    by (simp_all add: extents_kept Cartridge_new_def)
  show ?thesis using ram image new by blast
qed

theorem access_within_allocation_witness:
  "ram_size (ram cart_sram_32K) = 2 ^ 15
   \<and> ram_mask (ram cart_sram_32K) = ram_size (ram cart_sram_32K) - 1
   \<and> unat (ram_size (ram cart_sram_32K)) \<le> extent (ram_data (ram cart_sram_32K))
   \<and> extent (ram_data (ram cart_sram_32K)) = 32768
   \<and> extent (rom_data (rom cart_sram_32K)) = 33554432
   \<and> classify cart_sram_32K 0x0E007FFF = BatteryRam 0x7FFF
   \<and> unat (align 0x7FFF Word) + span Word - 1 = 32767
   \<and> cells (ram_data (ram (Cartridge_write idle_chips cart_sram_32K 0x0E007FFF Word 0x11223344))) 32767
       = 0x11
   \<and> cells (ram_data (ram (Cartridge_write idle_chips cart_sram_32K 0x0E007FFF Word 0x11223344))) 32768
       = cells (ram_data (ram cart_sram_32K)) 32768
   \<and> classify cart_sram_32K 0x09FFFFFF = Image 0x01FFFFFF
   \<and> unat (align 0x01FFFFFF Word) + span Word - 1 = 33554431
   \<and> Cartridge_write idle_chips cart_sram_32K 0x09FFFFFF Word 0x11223344 = cart_sram_32K"
proof -
  have c1: "classify cart_sram_32K 0x0E007FFF = BatteryRam 0x7FFF"
    by (simp add: classify_def cart_sram_32K_flags cart_sram_32K_ram)
  have c2: "classify cart_sram_32K 0x09FFFFFF = Image 0x01FFFFFF"
    by (simp add: classify_def cart_sram_32K_flags)
  have s: "ram_size (ram cart_sram_32K) = 2 ^ 15"
    "ram_mask (ram cart_sram_32K) = ram_size (ram cart_sram_32K) - 1"
    "unat (ram_size (ram cart_sram_32K)) \<le> extent (ram_data (ram cart_sram_32K))"
    "extent (ram_data (ram cart_sram_32K)) = 32768"
    by (simp_all add: cart_sram_32K_ram)
  have e: "extent (rom_data (rom cart_sram_32K)) = 32 * 1024 * 1024"
    by (simp add: cart_sram_32K_rom)
  have k: "(2 :: nat) \<le> 15" "(15 :: nat) < 32" by simp_all
  have a: "unat (align 0x7FFF Word) = 32764" "span Word = 4"
    "unat (align 0x01FFFFFF Word) = 33554428"
    by (simp_all add: align_def span_def)
  note T = access_within_allocation [of cart_sram_32K "0x0E007FFF" "0x7FFF" 15 Word idle_chips 0
      "0x11223344" no_files sram_32K zero_heap "()" "()"]
  have t1: "cells (ram_data (ram (Cartridge_write idle_chips cart_sram_32K 0x0E007FFF Word 0x11223344))) m
             = (if unat (align 0x7FFF Word) \<le> m \<and> m < unat (align 0x7FFF Word) + span Word
                then byte_of 0x11223344 (m - unat (align 0x7FFF Word))
                else cells (ram_data (ram cart_sram_32K)) m)" for m
    using T c1 s(1,2) k by blast
  have t2: "unat (align 0x7FFF Word) + span Word - 1 < extent (ram_data (ram cart_sram_32K))"
    using T c1 s(1,2,3) k by blast
  have t3: "Cartridge_write idle_chips cart_sram_32K 0x09FFFFFF Word 0x11223344 = cart_sram_32K"
    using access_within_allocation [of cart_sram_32K "0x09FFFFFF" "0x01FFFFFF" 15 Word idle_chips 0
      "0x11223344" no_files sram_32K zero_heap "()" "()"] c2 e by blast
  have b: "byte_of 0x11223344 3 = 0x11" by (simp add: byte_of_def)
  show ?thesis
    unfolding t1 t3 c1 c2 a using s e b by simp
qed

section \<open>The scenario: battery RAM round trip and image mirror\<close>

text \<open>
  Claim C6. After load of a manifest with an image of 8 MiB and 32 KiB of battery
  RAM: a Byte write of \<open>0x42\<close> at \<open>0x0E001000\<close> followed by a Byte read there returns
  \<open>0x42\<close>, and a Byte read at \<open>0x08000000 + 8 MiB\<close> returns the byte at offset 0 of
  the image, which is byte 0 of what the frontend loaded. The reads leave the
  cartridge as the write left it. The mirror rests on \<open>Bus_mirror\<close>, modelled from
  the spec.
\<close>

theorem scenario_round_trip_and_mirror:
  assumes "rom_size (rom c0) = 32 * 1024 * 1024"
    and "rom_node doc = Some r" and "node_size r = 8 * 1024 * 1024"
    and "ram_node doc = Some info" and "node_type info = ''SRAM''"
    and "node_size info = 32 * 1024"
  shows "(let c = Cartridge_load h doc c0;
              c1 = Cartridge_write E c 0x0E001000 Byte 0x42;
              (v1, c2) = Cartridge_read E fetch c1 0x0E001000 Byte;
              (v2, c3) = Cartridge_read E fetch c2 (0x08000000 + 8 * 1024 * 1024) Byte
          in v1 = 0x42 \<and> c2 = c1
             \<and> v2 = ucast (cells (rom_data (rom c)) 0) \<and> c3 = c1
             \<and> cells (rom_data (rom c)) 0
                 = loadRequest h ROM (node_name r) (cells (rom_data (rom c0))) 0)"
proof -
  define c where "c = Cartridge_load h doc c0"
  define c1 where "c1 = Cartridge_write E c 0x0E001000 Byte 0x42"
  define d where "d = loadRequest h ROM (node_name r) (cells (rom_data (rom c0)))"
  have flags: "has_sram c" "\<not> has_eeprom c" "\<not> has_flashrom c"
    by (simp_all add: c_def load_has_sram load_has_eeprom load_has_flashrom assms)
  have mask: "ram_mask (ram c) = 0x7fff"
    by (simp add: c_def load_ram assms)
  have image: "cells (rom_data (rom c)) =
                 (\<lambda>i. if 8388608 \<le> i \<and> i < 33554432 then d (i mod 8388608) else d i)"
    by (simp add: c_def load_rom assms mirror_loop_cells d_def cong: if_cong)
  have ram_route: "classify c 0x0E001000 = BatteryRam 0x1000"
    by (simp add: classify_def flags mask)
  have c1: "c1 = store_ram c ((cells (ram_data (ram c)))(0x1000 := 0x42))"
    by (simp add: c1_def write_classify ram_route write_to_simps write_data_Byte)
  have flags1: "has_sram c1" "\<not> has_eeprom c1" "\<not> has_flashrom c1"
    and mask1: "ram_mask (ram c1) = 0x7fff"
    and rom1: "rom c1 = rom c"
    by (simp_all add: c1 store_ram_def flags mask)
  have ram_route1: "classify c1 0x0E001000 = BatteryRam 0x1000"
    by (simp add: classify_def flags1 mask1)
  have image_route1: "classify c1 0x08800000 = Image 0x00800000"
    by (simp add: classify_def flags1)
  have r1: "Cartridge_read E fetch c1 0x0E001000 Byte = (0x42, c1)"
    by (simp only: read_classify ram_route1 read_from_simps read_data_Byte) (simp add: c1 store_ram_def)
  have r2: "Cartridge_read E fetch c1 0x08800000 Byte = (ucast (d 0), c1)"
    by (simp only: read_classify image_route1 read_from_simps read_data_Byte rom1) (simp add: image)
  have i0: "cells (rom_data (rom c)) 0 = d 0"
    by (simp add: image)
  show ?thesis
    unfolding Let_def c_def [symmetric] c1_def [symmetric]
    by (simp add: r1 r2 i0 d_def)
qed

theorem scenario_round_trip_and_mirror_witness:
  "(let c = Cartridge_load no_files sram_32K fresh;
        c1 = Cartridge_write idle_chips c 0x0E001000 Byte 0x42;
        (v1, c2) = Cartridge_read idle_chips 0 c1 0x0E001000 Byte;
        (v2, c3) = Cartridge_read idle_chips 0 c2 0x08800000 Byte
    in v1 = 0x42 \<and> v2 = 0 \<and> c3 = c1)"
proof -
  have 1: "rom_size (rom fresh) = 32 * 1024 * 1024"
    by (simp add: fresh_def Cartridge_new_def)
  have 2: "rom_node sram_32K = Some rom_8M" by (simp add: sram_32K_def)
  have 3: "node_size rom_8M = 8 * 1024 * 1024" by (simp add: rom_8M_def)
  let ?info = "\<lparr> node_name = ''save.ram'', node_type = ''SRAM'', node_size = 32 * 1024, node_id = 0 \<rparr>"
  have 4: "ram_node sram_32K = Some ?info" by (simp add: sram_32K_def)
  have 5: "node_type ?info = ''SRAM''" and 6: "node_size ?info = 32 * 1024" by simp_all
  have z: "loadRequest no_files ROM (node_name rom_8M) (cells (rom_data (rom fresh))) 0 = 0"
    by (simp add: no_files_def fresh_def Cartridge_new_def zero_heap_def)
  show ?thesis
    using scenario_round_trip_and_mirror
            [OF 1 2 3 4 5 6, where h = no_files and E = idle_chips and fetch = 0]
    by (auto simp: Let_def split_beta z)
qed

section \<open>Initial contents of the buffers\<close>

lemma fill_from_start:
  "fill_loop 0 lim data = (\<lambda>i. if i < unat lim then 0xff else data i)"
  by (simp add: fill_loop_cells)

text \<open>
  The tiling loop of load writes no constant: it stores into the cells from the
  image size up to \<^verbatim>\<open>rom.size\<close> only, and what it stores is a copy of a cell of the
  buffer, whichever cell \<^verbatim>\<open>Bus::mirror\<close> names.
\<close>

lemma mirror_loop_outside:
  "i < unat addr \<or> unat lim \<le> i \<Longrightarrow> mirror_loop addr romsize lim data i = data i"
proof (induction addr romsize lim data rule: mirror_loop.induct)
  case (1 addr romsize lim data)
  show ?case
  proof (cases "addr < lim")
    case True
    have s: "unat (addr + 1) = Suc (unat addr)" using True by (rule unat_increment)
    have n: "i \<noteq> unat addr" using "1.prems" True by (auto simp: word_less_nat_alt)
    have "i < unat (addr + 1) \<or> unat lim \<le> i" using "1.prems" by (auto simp: s)
    then have "mirror_loop (addr + 1) romsize lim
                 (data(unat addr := data (unat (Bus_mirror addr romsize)))) i
               = (data(unat addr := data (unat (Bus_mirror addr romsize)))) i"
      by (rule "1.IH" [OF True])
    then show ?thesis using True n by (subst mirror_loop.simps) simp
  next
    case False
    then show ?thesis by (subst mirror_loop.simps) simp
  qed
qed

lemma mirror_loop_range:
  "(\<And>i. \<exists>j. data i = d j) \<Longrightarrow> \<exists>j. mirror_loop addr romsize lim data i = d j"
proof (induction addr romsize lim data arbitrary: i rule: mirror_loop.induct)
  case (1 addr romsize lim data)
  show ?case
  proof (cases "addr < lim")
    case True
    have "\<exists>j. (data(unat addr := data (unat (Bus_mirror addr romsize)))) n = d j" for n
      using "1.prems" by simp
    then have "\<exists>j. mirror_loop (addr + 1) romsize lim
                 (data(unat addr := data (unat (Bus_mirror addr romsize)))) i = d j"
      by (rule "1.IH" [OF True])
    then show ?thesis using True by (subst mirror_loop.simps) simp
  next
    case False
    then show ?thesis using "1.prems" by (subst mirror_loop.simps) simp
  qed
qed

text \<open>
  Claim C9 as stated fails. With an allocator that hands out zeroed memory, byte 0
  of each of the four buffers is 0 after construction; after load of the example
  manifest with battery RAM, byte 0 of the image, of the EEPROM buffer and of the
  FlashROM buffer is still 0, before any bus access.
\<close>

theorem erased_fill_counterexample:
  "cells (rom_data (rom fresh)) 0 = 0 \<and> cells (ram_data (ram fresh)) 0 = 0
   \<and> cells (eeprom_data (eeprom fresh)) 0 = 0 \<and> cells (flashrom_data (flashrom fresh)) 0 = 0
   \<and> cells (rom_data (rom cart_sram_32K)) 0 = 0
   \<and> cells (eeprom_data (eeprom cart_sram_32K)) 0 = 0
   \<and> cells (flashrom_data (flashrom cart_sram_32K)) 0 = 0"
proof -
  have f: "cells (rom_data (rom fresh)) 0 = 0" "cells (ram_data (ram fresh)) 0 = 0"
    "cells (eeprom_data (eeprom fresh)) 0 = 0" "cells (flashrom_data (flashrom fresh)) 0 = 0"
    by (simp_all add: fresh_def Cartridge_new_def zero_heap_def)
  show ?thesis
    using f by (simp add: cart_sram_32K_rom cart_sram_32K_others)
qed

text \<open>
  Claim C9, amended. The constructor allocates the four buffers and leaves their
  contents as the allocator hands them out. Load fills the first \<open>size\<close> bytes of
  the buffer of the storage chip that the manifest selects (battery RAM for \<open>SRAM\<close>
  and \<open>FRAM\<close>, EEPROM with its resolved size, FlashROM) with the erased-state value
  \<open>0xFF\<close>, provided \<open>size\<close> is at most the allocated capacity of that buffer, which
  load does not check; it then hands the buffer to the frontend, which may load save
  data over it. The buffers of the other storage chips are left as they are, and
  all three when the manifest has no ram node or one of another type. The image
  buffer is never filled: without a rom node it is left as it is; with one, every
  cell holds a value that the frontend left in the buffer, the cells below the image
  size and from \<^verbatim>\<open>rom.size\<close> on are as the frontend left them, and the cells between
  are copies made by the tiling loop.
\<close>

theorem erased_fill:
  "cells (rom_data (rom (Cartridge_new garbage x0 y0))) = garbage ROM
   \<and> cells (ram_data (ram (Cartridge_new garbage x0 y0))) = garbage RAM
   \<and> cells (eeprom_data (eeprom (Cartridge_new garbage x0 y0))) = garbage EEPROM
   \<and> cells (flashrom_data (flashrom (Cartridge_new garbage x0 y0))) = garbage FlashROM
   \<and> (ram_node doc = Some info \<and> (node_type info = ''SRAM'' \<or> node_type info = ''FRAM'')
        \<and> unat (node_size info) \<le> extent (ram_data (ram c)) \<longrightarrow>
        cells (ram_data (ram (Cartridge_load h doc c))) =
          loadRequest h RAM (node_name info)
            (\<lambda>i. if i < unat (ram_size (ram (Cartridge_load h doc c))) then 0xff
                 else cells (ram_data (ram c)) i)
        \<and> ram_size (ram (Cartridge_load h doc c)) = node_size info
        \<and> eeprom (Cartridge_load h doc c) = eeprom c
        \<and> flashrom (Cartridge_load h doc c) = flashrom c)
   \<and> (ram_node doc = Some info \<and> node_type info = ''EEPROM''
        \<and> unat (if node_size info = 0 then 8192 else node_size info)
             \<le> extent (eeprom_data (eeprom c)) \<longrightarrow>
        cells (eeprom_data (eeprom (Cartridge_load h doc c))) =
          loadRequest h EEPROM (node_name info)
            (\<lambda>i. if i < unat (eeprom_size (eeprom (Cartridge_load h doc c))) then 0xff
                 else cells (eeprom_data (eeprom c)) i)
        \<and> eeprom_size (eeprom (Cartridge_load h doc c))
            = (if node_size info = 0 then 8192 else node_size info)
        \<and> ram (Cartridge_load h doc c) = ram c
        \<and> flashrom (Cartridge_load h doc c) = flashrom c)
   \<and> (ram_node doc = Some info \<and> node_type info = ''FlashROM''
        \<and> unat (node_size info) \<le> extent (flashrom_data (flashrom c)) \<longrightarrow>
        cells (flashrom_data (flashrom (Cartridge_load h doc c))) =
          loadRequest h FlashROM (node_name info)
            (\<lambda>i. if i < unat (flashrom_size (flashrom (Cartridge_load h doc c))) then 0xff
                 else cells (flashrom_data (flashrom c)) i)
        \<and> flashrom_size (flashrom (Cartridge_load h doc c)) = node_size info
        \<and> ram (Cartridge_load h doc c) = ram c
        \<and> eeprom (Cartridge_load h doc c) = eeprom c)
   \<and> (ram_node doc = Some info \<and> node_type info \<noteq> ''SRAM'' \<and> node_type info \<noteq> ''FRAM''
        \<and> node_type info \<noteq> ''EEPROM'' \<and> node_type info \<noteq> ''FlashROM'' \<longrightarrow>
        ram (Cartridge_load h doc c) = ram c \<and> eeprom (Cartridge_load h doc c) = eeprom c
        \<and> flashrom (Cartridge_load h doc c) = flashrom c)
   \<and> (ram_node doc = None \<longrightarrow>
        ram (Cartridge_load h doc c) = ram c \<and> eeprom (Cartridge_load h doc c) = eeprom c
        \<and> flashrom (Cartridge_load h doc c) = flashrom c)
   \<and> (rom_node doc = None \<longrightarrow> rom (Cartridge_load h doc c) = rom c)
   \<and> (rom_node doc = Some r \<and> unat (rom_size (rom c)) \<le> extent (rom_data (rom c)) \<longrightarrow>
        (\<forall>i. \<exists>j. cells (rom_data (rom (Cartridge_load h doc c))) i
                   = loadRequest h ROM (node_name r) (cells (rom_data (rom c))) j)
        \<and> (\<forall>i. i < unat (node_size r) \<or> unat (rom_size (rom c)) \<le> i \<longrightarrow>
               cells (rom_data (rom (Cartridge_load h doc c))) i
                 = loadRequest h ROM (node_name r) (cells (rom_data (rom c))) i)
        \<and> extent (rom_data (rom (Cartridge_load h doc c))) = extent (rom_data (rom c)))"
proof -
  have new: "cells (rom_data (rom (Cartridge_new garbage x0 y0))) = garbage ROM"
    "cells (ram_data (ram (Cartridge_new garbage x0 y0))) = garbage RAM"
    "cells (eeprom_data (eeprom (Cartridge_new garbage x0 y0))) = garbage EEPROM"
    "cells (flashrom_data (flashrom (Cartridge_new garbage x0 y0))) = garbage FlashROM"
    by (simp_all add: Cartridge_new_def)
  have sram: "cells (ram_data (ram (Cartridge_load h doc c))) =
          loadRequest h RAM (node_name info)
            (\<lambda>i. if i < unat (ram_size (ram (Cartridge_load h doc c))) then 0xff
                 else cells (ram_data (ram c)) i)
        \<and> ram_size (ram (Cartridge_load h doc c)) = node_size info
        \<and> eeprom (Cartridge_load h doc c) = eeprom c
        \<and> flashrom (Cartridge_load h doc c) = flashrom c"
    if "ram_node doc = Some info" "node_type info = ''SRAM'' \<or> node_type info = ''FRAM''"
    using that by (auto simp: load_ram load_eeprom load_flashrom fill_from_start)
  have eeprom: "cells (eeprom_data (eeprom (Cartridge_load h doc c))) =
          loadRequest h EEPROM (node_name info)
            (\<lambda>i. if i < unat (eeprom_size (eeprom (Cartridge_load h doc c))) then 0xff
                 else cells (eeprom_data (eeprom c)) i)
        \<and> eeprom_size (eeprom (Cartridge_load h doc c))
            = (if node_size info = 0 then 8192 else node_size info)
        \<and> ram (Cartridge_load h doc c) = ram c
        \<and> flashrom (Cartridge_load h doc c) = flashrom c"
    if "ram_node doc = Some info" "node_type info = ''EEPROM''"
    using that by (simp add: load_ram load_eeprom load_flashrom fill_from_start)
  have flashrom: "cells (flashrom_data (flashrom (Cartridge_load h doc c))) =
          loadRequest h FlashROM (node_name info)
            (\<lambda>i. if i < unat (flashrom_size (flashrom (Cartridge_load h doc c))) then 0xff
                 else cells (flashrom_data (flashrom c)) i)
        \<and> flashrom_size (flashrom (Cartridge_load h doc c)) = node_size info
        \<and> ram (Cartridge_load h doc c) = ram c
        \<and> eeprom (Cartridge_load h doc c) = eeprom c"
    if "ram_node doc = Some info" "node_type info = ''FlashROM''"
    using that by (simp add: load_ram load_eeprom load_flashrom fill_from_start)
  have other: "ram (Cartridge_load h doc c) = ram c \<and> eeprom (Cartridge_load h doc c) = eeprom c
        \<and> flashrom (Cartridge_load h doc c) = flashrom c"
    if "ram_node doc = Some info" "node_type info \<noteq> ''SRAM''" "node_type info \<noteq> ''FRAM''"
      "node_type info \<noteq> ''EEPROM''" "node_type info \<noteq> ''FlashROM''"
    using that by (simp add: load_ram load_eeprom load_flashrom)
  have none: "ram (Cartridge_load h doc c) = ram c \<and> eeprom (Cartridge_load h doc c) = eeprom c
        \<and> flashrom (Cartridge_load h doc c) = flashrom c" if "ram_node doc = None"
    using that by (simp add: load_ram load_eeprom load_flashrom)
  have norom: "rom (Cartridge_load h doc c) = rom c" if "rom_node doc = None"
    using that by (simp add: load_rom)
  have image: "(\<forall>i. \<exists>j. cells (rom_data (rom (Cartridge_load h doc c))) i
                   = loadRequest h ROM (node_name r) (cells (rom_data (rom c))) j)
        \<and> (\<forall>i. i < unat (node_size r) \<or> unat (rom_size (rom c)) \<le> i \<longrightarrow>
               cells (rom_data (rom (Cartridge_load h doc c))) i
                 = loadRequest h ROM (node_name r) (cells (rom_data (rom c))) i)
        \<and> extent (rom_data (rom (Cartridge_load h doc c))) = extent (rom_data (rom c))"
    if r: "rom_node doc = Some r"
  proof -
    let ?d = "loadRequest h ROM (node_name r) (cells (rom_data (rom c)))"
    have l: "cells (rom_data (rom (Cartridge_load h doc c)))
               = mirror_loop (node_size r) (node_size r) (rom_size (rom c)) ?d"
      by (simp add: load_rom r)
    have "\<exists>j. mirror_loop (node_size r) (node_size r) (rom_size (rom c)) ?d i = ?d j" for i
      by (rule mirror_loop_range) blast
    moreover have "mirror_loop (node_size r) (node_size r) (rom_size (rom c)) ?d i = ?d i"
      if "i < unat (node_size r) \<or> unat (rom_size (rom c)) \<le> i" for i
      using that by (rule mirror_loop_outside)
    ultimately show ?thesis unfolding l by (simp add: extents_kept)
  qed
  show ?thesis using new sram eeprom flashrom other none norom image by blast
qed

theorem erased_fill_witness:
  "unat (32768 :: uint32) \<le> extent (ram_data (ram fresh))
   \<and> cells (ram_data (ram (Cartridge_load no_files sram_32K fresh)))
     = (\<lambda>i. if i < 32768 then 0xff else 0)
   \<and> eeprom (Cartridge_load no_files sram_32K fresh) = eeprom fresh
   \<and> flashrom (Cartridge_load no_files sram_32K fresh) = flashrom fresh
   \<and> unat (512 :: uint32) \<le> extent (eeprom_data (eeprom fresh))
   \<and> cells (eeprom_data (eeprom (Cartridge_load no_files eeprom_512 fresh)))
     = (\<lambda>i. if i < 512 then 0xff else 0)
   \<and> unat (65536 :: uint32) \<le> extent (flashrom_data (flashrom fresh))
   \<and> cells (flashrom_data (flashrom (Cartridge_load no_files flashrom_64K fresh)))
     = (\<lambda>i. if i < 65536 then 0xff else 0)
   \<and> unat (rom_size (rom fresh)) \<le> extent (rom_data (rom fresh))
   \<and> cells (rom_data (rom (Cartridge_load no_files sram_32K fresh))) 0 = 0"
proof -
  let ?s = "\<lparr> node_name = ''save.ram'', node_type = ''SRAM'', node_size = 32 * 1024, node_id = 0 \<rparr>"
  let ?e = "\<lparr> node_name = ''save.ram'', node_type = ''EEPROM'', node_size = 512, node_id = 0 \<rparr>"
  let ?f = "\<lparr> node_name = ''save.ram'', node_type = ''FlashROM'', node_size = 64 * 1024,
              node_id = 0x1cc2 \<rparr>"
  have n: "ram_node sram_32K = Some ?s" "ram_node eeprom_512 = Some ?e"
    "ram_node flashrom_64K = Some ?f" "rom_node sram_32K = Some rom_8M"
    by (simp_all add: sram_32K_def eeprom_512_def flashrom_64K_def)
  have t: "node_type ?s = ''SRAM'' \<or> node_type ?s = ''FRAM''" "node_type ?e = ''EEPROM''"
    "node_type ?f = ''FlashROM''"
    by simp_all
  have x: "unat (node_size ?s) \<le> extent (ram_data (ram fresh))"
    "unat (if node_size ?e = 0 then 8192 else node_size ?e) \<le> extent (eeprom_data (eeprom fresh))"
    "unat (node_size ?f) \<le> extent (flashrom_data (flashrom fresh))"
    "unat (rom_size (rom fresh)) \<le> extent (rom_data (rom fresh))"
    "(0 :: nat) < unat (node_size rom_8M) \<or> unat (rom_size (rom fresh)) \<le> 0"
    by (simp_all add: fresh_def Cartridge_new_def rom_8M_def)
  have g: "cells (ram_data (ram fresh)) = (\<lambda>i. 0)" "cells (eeprom_data (eeprom fresh)) = (\<lambda>i. 0)"
    "cells (flashrom_data (flashrom fresh)) = (\<lambda>i. 0)" "cells (rom_data (rom fresh)) = (\<lambda>i. 0)"
    by (simp_all add: fresh_def Cartridge_new_def zero_heap_def)
  have l: "loadRequest no_files b name = (\<lambda>data. data)" for b name
    by (simp add: no_files_def)
  note S = erased_fill [of zero_heap "()" "()" sram_32K ?s fresh no_files rom_8M]
  have s1: "cells (ram_data (ram (Cartridge_load no_files sram_32K fresh))) =
          loadRequest no_files RAM (node_name ?s)
            (\<lambda>i. if i < unat (ram_size (ram (Cartridge_load no_files sram_32K fresh))) then 0xff
                 else cells (ram_data (ram fresh)) i)"
    and s2: "ram_size (ram (Cartridge_load no_files sram_32K fresh)) = node_size ?s"
    and s3: "eeprom (Cartridge_load no_files sram_32K fresh) = eeprom fresh"
    and s4: "flashrom (Cartridge_load no_files sram_32K fresh) = flashrom fresh"
    using S n(1) t(1) x(1) by blast+
  have s5: "cells (rom_data (rom (Cartridge_load no_files sram_32K fresh))) 0
             = loadRequest no_files ROM (node_name rom_8M) (cells (rom_data (rom fresh))) 0"
    using S n(4) x(4,5) by blast
  note E = erased_fill [of zero_heap "()" "()" eeprom_512 ?e fresh no_files rom_8M]
  have e1: "cells (eeprom_data (eeprom (Cartridge_load no_files eeprom_512 fresh))) =
          loadRequest no_files EEPROM (node_name ?e)
            (\<lambda>i. if i < unat (eeprom_size (eeprom (Cartridge_load no_files eeprom_512 fresh)))
                 then 0xff else cells (eeprom_data (eeprom fresh)) i)"
    and e2: "eeprom_size (eeprom (Cartridge_load no_files eeprom_512 fresh))
            = (if node_size ?e = 0 then 8192 else node_size ?e)"
    using E n(2) t(2) x(2) by blast+
  note F = erased_fill [of zero_heap "()" "()" flashrom_64K ?f fresh no_files rom_8M]
  have f1: "cells (flashrom_data (flashrom (Cartridge_load no_files flashrom_64K fresh))) =
          loadRequest no_files FlashROM (node_name ?f)
            (\<lambda>i. if i < unat (flashrom_size (flashrom (Cartridge_load no_files flashrom_64K fresh)))
                 then 0xff else cells (flashrom_data (flashrom fresh)) i)"
    and f2: "flashrom_size (flashrom (Cartridge_load no_files flashrom_64K fresh)) = node_size ?f"
    using F n(3) t(3) x(3) by blast+
  have y: "unat (32768 :: uint32) \<le> extent (ram_data (ram fresh))"
    "unat (512 :: uint32) \<le> extent (eeprom_data (eeprom fresh))"
    "unat (65536 :: uint32) \<le> extent (flashrom_data (flashrom fresh))"
    using x(1,2,3) by simp_all
  show ?thesis
    unfolding s1 s2 s3 s4 s5 e1 e2 f1 f2 g l using y x(4) by (simp cong: if_cong)
qed

end
